theory Spec2Isabelle
  imports Main "HOL-Library.AList"
begin

section \<open>The playout service\<close>

text \<open>Source: \<^verbatim>\<open>src/unnamed/part_003\<close> (the playout service).\<close>

text \<open>
  The service is a single-threaded event loop. Every \<^verbatim>\<open>await\<close> of \<^verbatim>\<open>startPlayout\<close> is a
  suspension point: the code between two suspension points runs without interruption,
  and bus messages, query completions and subprocess exits are the events that resume it.
  The model is a deterministic step function over such events. Each invocation of
  \<^verbatim>\<open>startPlayout\<close> is a control task whose program counter names the \<^verbatim>\<open>await\<close> it is
  suspended at and carries the local variables that are live there.
\<close>

subsection \<open>Data\<close>

record PlaylistItem =
  item_id :: string
  vodId :: string
  filePath :: string
  duration :: int
  position :: int

text \<open>A \<^verbatim>\<open>ChildProcess\<close> handle is the index of the subprocess in the list of all
  subprocesses spawned so far; an object reference is an index into the heap of
  playout-info objects (the values of the \<^verbatim>\<open>activePlayouts\<close> map are references: the
  loop keeps one in \<^verbatim>\<open>playoutInfo\<close> across its suspension points).\<close>

type_synonym pid = nat
type_synonym ref = nat

record PlayoutInfo =
  process :: "pid option"
  currentItem :: nat
  playlist :: "PlaylistItem list"
  loop :: bool

record child =
  c_owner :: nat
  c_channel :: string
  c_item :: PlaylistItem
  c_url :: string
  sigterm :: bool
  exited :: bool

datatype chan_status = Stopped | Running

record channel_row =
  status :: chan_status
  current_item_index :: nat

text \<open>The suspension points of \<^verbatim>\<open>startPlayout\<close>, by source line, with their live locals
  (\<^verbatim>\<open>currentIndex\<close>, \<^verbatim>\<open>playoutInfo\<close>, \<^verbatim>\<open>item\<close>). \<open>Returned\<close>: the function returned.
  \<open>Rejected\<close>: an exception left the function, so its promise rejected and
  \<^verbatim>\<open>main\<close> logged it with \<^verbatim>\<open>.catch(console.error)\<close>.\<close>

datatype pc =
    Await_playlist
  | Await_empty_stop
  | Await_index_write nat ref PlaylistItem
  | Await_exit pid nat ref
  | Await_refresh ref
  | Await_final_write
  | Returned
  | Rejected

record task =
  t_channelId :: string
  t_streamKey :: string
  t_loop :: bool
  t_pc :: pc

datatype effect =
    Wrote_index string nat
  | Wrote_stopped string
  | Spawned pid string PlaylistItem

text \<open>
  \<open>activePlayouts\<close> is the JavaScript \<^verbatim>\<open>Map\<close>: an association list in insertion order,
  where \<^verbatim>\<open>set\<close> on a present key replaces the value in place (\<open>AList.update\<close>) and
  \<^verbatim>\<open>delete\<close> removes the key (\<open>AList.delete\<close>). \<open>linear_channels\<close> holds the two columns
  the service writes; \<open>playlists\<close> holds, per channel, the rows the query of
  \<^verbatim>\<open>getPlaylist\<close> returns (items joined with their ready files, ordered by position).
  \<open>trace\<close> logs store writes and spawns in the order they happen. \<open>hung\<close> is set when
  the synchronous loop spins without ever reaching an \<^verbatim>\<open>await\<close>: the event loop is then
  blocked and no further event is processed.
\<close>

record playout_state =
  activePlayouts :: "(string \<times> ref) list"
  heap :: "PlayoutInfo list"
  children :: "child list"
  tasks :: "task list"
  linear_channels :: "(string \<times> channel_row) list"
  playlists :: "(string \<times> PlaylistItem list) list"
  srs_rtmp_url :: "string option"
  trace :: "effect list"
  hung :: bool

datatype event =
    Playout_start string string bool
  | Playout_stop string
  | Playout_skip string
  | Query_ok nat
  | Query_failed nat
  | Child_close pid "int option"
  | Child_error pid
  | Playlist_edit string "PlaylistItem list"

subsection \<open>Store operations\<close>

definition getPlaylist :: "playout_state \<Rightarrow> string \<Rightarrow> PlaylistItem list" where
  "getPlaylist s c = (case map_of (playlists s) c of None \<Rightarrow> [] | Some rows \<Rightarrow> rows)"

text \<open>\<^verbatim>\<open>UPDATE linear_channels SET ... WHERE id = $1\<close>: every row with that id changes,
  a missing id changes nothing.\<close>

definition update_channel ::
  "string \<Rightarrow> (channel_row \<Rightarrow> channel_row) \<Rightarrow> (string \<times> channel_row) list \<Rightarrow> (string \<times> channel_row) list" where
  "update_channel c f rows = map (\<lambda>(k, r). if k = c then (k, f r) else (k, r)) rows"

definition write_stopped :: "string \<Rightarrow> playout_state \<Rightarrow> playout_state" where
  "write_stopped c s =
     s\<lparr>linear_channels := update_channel c (\<lambda>r. r\<lparr>status := Stopped\<rparr>) (linear_channels s),
       trace := trace s @ [Wrote_stopped c]\<rparr>"

definition write_index :: "string \<Rightarrow> nat \<Rightarrow> playout_state \<Rightarrow> playout_state" where
  "write_index c i s =
     s\<lparr>linear_channels := update_channel c (\<lambda>r. r\<lparr>current_item_index := i\<rparr>) (linear_channels s),
       trace := trace s @ [Wrote_index c i]\<rparr>"

subsection \<open>Subprocesses\<close>

text \<open>\<^verbatim>\<open>`${process.env.SRS_RTMP_URL || 'rtmp://srs:1935/linear'}/${streamKey}`\<close>:
  an unset or empty variable gives the default.\<close>

definition rtmpUrl :: "string option \<Rightarrow> string \<Rightarrow> string" where
  "rtmpUrl env streamKey =
     (case env of None \<Rightarrow> ''rtmp://srs:1935/linear''
      | Some b \<Rightarrow> if b = [] then ''rtmp://srs:1935/linear'' else b) @ ''/'' @ streamKey"

text \<open>\<^verbatim>\<open>process.kill('SIGTERM')\<close>: the signal is sent to a live subprocess; on one that
  has exited the call does nothing.\<close>

definition kill :: "pid \<Rightarrow> playout_state \<Rightarrow> playout_state" where
  "kill p s =
     (if p < length (children s) \<and> \<not> exited (children s ! p)
      then s\<lparr>children := (children s)[p := (children s ! p)\<lparr>sigterm := True\<rparr>]\<rparr>
      else s)"

definition set_pc :: "nat \<Rightarrow> pc \<Rightarrow> playout_state \<Rightarrow> playout_state" where
  "set_pc tid k s = s\<lparr>tasks := (tasks s)[tid := (tasks s ! tid)\<lparr>t_pc := k\<rparr>]\<rparr>"

text \<open>\<^verbatim>\<open>playItem\<close> up to the point where its promise is pending (lines 61-118): spawn
  ffmpeg on the item, then store the handle in whatever entry the registry holds for the
  channel at that moment, if any.\<close>

definition playItem :: "nat \<Rightarrow> PlaylistItem \<Rightarrow> playout_state \<Rightarrow> playout_state" where
  "playItem tid item s =
     (let t = tasks s ! tid;
          c = t_channelId t;
          p = length (children s);
          s1 = s\<lparr>children := children s @
                   [\<lparr>c_owner = tid, c_channel = c, c_item = item,
                     c_url = rtmpUrl (srs_rtmp_url s) (t_streamKey t),
                     sigterm = False, exited = False\<rparr>],
                 trace := trace s @ [Spawned p c item]\<rparr>
      in case map_of (activePlayouts s1) c of
           None \<Rightarrow> s1
         | Some a \<Rightarrow> s1\<lparr>heap := (heap s1)[a := (heap s1 ! a)\<lparr>process := Some p\<rparr>]\<rparr>)"

text \<open>The \<^verbatim>\<open>close\<close> handler of \<^verbatim>\<open>playItem\<close> (lines 104-111).\<close>

definition playItem_resolves :: "int option \<Rightarrow> bool" where
  "playItem_resolves code = (code = Some 0 \<or> code = Some 255)"

subsection \<open>The control loop of startPlayout\<close>

text \<open>Lines 203-208: the cleanup after the loop, up to the final status write.\<close>

definition cleanup :: "nat \<Rightarrow> playout_state \<Rightarrow> playout_state" where
  "cleanup tid s =
     set_pc tid Await_final_write
       (s\<lparr>activePlayouts := AList.delete (t_channelId (tasks s ! tid)) (activePlayouts s)\<rparr>)"

text \<open>
  Lines 153-171: the loop condition and the head of the body, up to the index write.
  When \<^verbatim>\<open>playlist[currentIndex]\<close> is undefined and \<^verbatim>\<open>loop\<close> is set, the code sets
  \<^verbatim>\<open>currentIndex = 0\<close> and continues: the next iteration sees the same registry entry
  and either finds item 0 or, on an empty playlist, repeats itself unchanged for ever.
\<close>

definition loop_head :: "nat \<Rightarrow> bool \<Rightarrow> nat \<Rightarrow> playout_state \<Rightarrow> playout_state" where
  "loop_head tid running currentIndex s =
     (if \<not> running then cleanup tid s
      else case map_of (activePlayouts s) (t_channelId (tasks s ! tid)) of
        None \<Rightarrow> cleanup tid s
      | Some a \<Rightarrow>
          (let pl = playlist (heap s ! a) in
           if currentIndex < length pl
           then set_pc tid (Await_index_write currentIndex a (pl ! currentIndex)) s
           else if t_loop (tasks s ! tid)
           then (if 0 < length pl then set_pc tid (Await_index_write 0 a (pl ! 0)) s
                 else s\<lparr>hung := True\<rparr>)
           else cleanup tid s))"

text \<open>Lines 175-187: the rest of the \<^verbatim>\<open>try\<close> block after \<^verbatim>\<open>playItem\<close> resolved.\<close>

definition on_resolve :: "nat \<Rightarrow> nat \<Rightarrow> ref \<Rightarrow> playout_state \<Rightarrow> playout_state" where
  "on_resolve tid currentIndex a s =
     (let i = currentIndex + 1;
          s1 = s\<lparr>heap := (heap s)[a := (heap s ! a)\<lparr>currentItem := i\<rparr>]\<rparr>
      in if i \<ge> length (playlist (heap s1 ! a))
         then (if t_loop (tasks s1 ! tid) then set_pc tid (Await_refresh a) s1
               else loop_head tid False i s1)
         else loop_head tid True i s1)"

text \<open>Lines 188-200: the \<^verbatim>\<open>catch\<close> block.\<close>

definition on_reject :: "nat \<Rightarrow> nat \<Rightarrow> ref \<Rightarrow> playout_state \<Rightarrow> playout_state" where
  "on_reject tid currentIndex a s =
     (let i = currentIndex + 1
      in if i \<ge> length (playlist (heap s ! a))
         then (if t_loop (tasks s ! tid) then loop_head tid True 0 s
               else loop_head tid False i s)
         else loop_head tid True i s)"

text \<open>Lines 128-147: the playlist has been loaded.\<close>

definition on_playlist :: "nat \<Rightarrow> playout_state \<Rightarrow> playout_state" where
  "on_playlist tid s =
     (let t = tasks s ! tid;
          c = t_channelId t;
          pl = getPlaylist s c
      in if length pl = 0 then set_pc tid Await_empty_stop s
         else loop_head tid True 0
                (s\<lparr>heap := heap s @
                      [\<lparr>process = None, currentItem = 0, playlist = pl, loop = t_loop t\<rparr>],
                    activePlayouts := AList.update c (length (heap s)) (activePlayouts s)\<rparr>))"

subsection \<open>Events\<close>

definition query_ok :: "nat \<Rightarrow> playout_state \<Rightarrow> playout_state" where
  "query_ok tid s =
     (if tid < length (tasks s) then
        (let c = t_channelId (tasks s ! tid) in
         case t_pc (tasks s ! tid) of
           Await_playlist \<Rightarrow> on_playlist tid s
         | Await_empty_stop \<Rightarrow> set_pc tid Returned (write_stopped c s)
         | Await_index_write i a item \<Rightarrow>
             (let s1 = playItem tid item (write_index c i s)
              in set_pc tid (Await_exit (length (children s)) i a) s1)
         | Await_refresh a \<Rightarrow>
             loop_head tid True 0
               (s\<lparr>heap := (heap s)[a := (heap s ! a)\<lparr>playlist := getPlaylist s c\<rparr>]\<rparr>)
         | Await_final_write \<Rightarrow> set_pc tid Returned (write_stopped c s)
         | _ \<Rightarrow> s)
      else s)"

text \<open>A rejected query throws at its \<^verbatim>\<open>await\<close>. Only the playlist refresh of line 183
  is inside the \<^verbatim>\<open>try\<close> block (there \<^verbatim>\<open>currentIndex\<close> is already 0); everywhere else the
  exception leaves \<^verbatim>\<open>startPlayout\<close>.\<close>

definition query_failed :: "nat \<Rightarrow> playout_state \<Rightarrow> playout_state" where
  "query_failed tid s =
     (if tid < length (tasks s) then
        (case t_pc (tasks s ! tid) of
           Await_playlist \<Rightarrow> set_pc tid Rejected s
         | Await_empty_stop \<Rightarrow> set_pc tid Rejected s
         | Await_index_write i a item \<Rightarrow> set_pc tid Rejected s
         | Await_refresh a \<Rightarrow> on_reject tid 0 a s
         | Await_final_write \<Rightarrow> set_pc tid Rejected s
         | _ \<Rightarrow> s)
      else s)"

definition mark_exited :: "pid \<Rightarrow> playout_state \<Rightarrow> playout_state" where
  "mark_exited p s = s\<lparr>children := (children s)[p := (children s ! p)\<lparr>exited := True\<rparr>]\<rparr>"

definition child_close :: "pid \<Rightarrow> int option \<Rightarrow> playout_state \<Rightarrow> playout_state" where
  "child_close p code s =
     (if p < length (children s) \<and> \<not> exited (children s ! p) then
        (let tid = c_owner (children s ! p);
             s1 = mark_exited p s
         in if tid < length (tasks s) then
              (case t_pc (tasks s ! tid) of
                 Await_exit q i a \<Rightarrow>
                   if q = p then
                     (if playItem_resolves code then on_resolve tid i a s1
                      else on_reject tid i a s1)
                   else s1
               | _ \<Rightarrow> s1)
            else s1)
      else s)"

text \<open>The \<^verbatim>\<open>error\<close> handler of \<^verbatim>\<open>playItem\<close> (lines 99-102) rejects the promise.\<close>

definition child_error :: "pid \<Rightarrow> playout_state \<Rightarrow> playout_state" where
  "child_error p s =
     (if p < length (children s) \<and> \<not> exited (children s ! p) then
        (let tid = c_owner (children s ! p)
         in if tid < length (tasks s) then
              (case t_pc (tasks s ! tid) of
                 Await_exit q i a \<Rightarrow> if q = p then on_reject tid i a s else s
               | _ \<Rightarrow> s)
            else s)
      else s)"

text \<open>Lines 122-128: a \<^verbatim>\<open>playout:start\<close> message starts a control task, which
  suspends at once on the playlist query.\<close>

definition startPlayout :: "string \<Rightarrow> string \<Rightarrow> bool \<Rightarrow> playout_state \<Rightarrow> playout_state" where
  "startPlayout channelId streamKey lp s =
     s\<lparr>tasks := tasks s @
          [\<lparr>t_channelId = channelId, t_streamKey = streamKey, t_loop = lp,
            t_pc = Await_playlist\<rparr>]\<rparr>"

text \<open>Lines 214-224 and 227-236.\<close>

definition kill_current :: "string \<Rightarrow> playout_state \<Rightarrow> playout_state" where
  "kill_current channelId s =
     (case map_of (activePlayouts s) channelId of
        None \<Rightarrow> s
      | Some a \<Rightarrow> (case process (heap s ! a) of None \<Rightarrow> s | Some p \<Rightarrow> kill p s))"

definition stopPlayout :: "string \<Rightarrow> playout_state \<Rightarrow> playout_state" where
  "stopPlayout channelId s =
     (let s1 = kill_current channelId s
      in s1\<lparr>activePlayouts := AList.delete channelId (activePlayouts s1)\<rparr>)"

definition skipItem :: "string \<Rightarrow> playout_state \<Rightarrow> playout_state" where
  "skipItem channelId s = kill_current channelId s"

fun step :: "event \<Rightarrow> playout_state \<Rightarrow> playout_state" where
  "step (Playout_start c k lp) s = (if hung s then s else startPlayout c k lp s)"
| "step (Playout_stop c) s = (if hung s then s else stopPlayout c s)"
| "step (Playout_skip c) s = (if hung s then s else skipItem c s)"
| "step (Query_ok tid) s = (if hung s then s else query_ok tid s)"
| "step (Query_failed tid) s = (if hung s then s else query_failed tid s)"
| "step (Child_close p code) s = (if hung s then s else child_close p code s)"
| "step (Child_error p) s = (if hung s then s else child_error p s)"
| "step (Playlist_edit c pl) s = s\<lparr>playlists := AList.update c pl (playlists s)\<rparr>"

fun run :: "event list \<Rightarrow> playout_state \<Rightarrow> playout_state" where
  "run [] s = s"
| "run (e # es) s = run es (step e s)"

text \<open>A freshly booted service over a given store.\<close>

definition boot ::
  "(string \<times> channel_row) list \<Rightarrow> (string \<times> PlaylistItem list) list \<Rightarrow> playout_state" where
  "boot chans pls =
     \<lparr>activePlayouts = [], heap = [], children = [], tasks = [],
      linear_channels = chans, playlists = pls, srs_rtmp_url = None,
      trace = [], hung = False\<rparr>"

definition mk_item :: "string \<Rightarrow> int \<Rightarrow> PlaylistItem" where
  "mk_item v pos = \<lparr>item_id = v, vodId = v, filePath = v, duration = 10, position = pos\<rparr>"


section \<open>The restream service\<close>

text \<open>
  Source: the restream service, \<^verbatim>\<open>src/dashboard/src/pages/ChannelDetail.tsx\<close> lines
  294-697, and the stop route of \<^verbatim>\<open>src/api/src/routes/restream.ts\<close>. As in the playout
  service, \<^verbatim>\<open>main\<close> does not await its handlers: every \<^verbatim>\<open>await\<close> of
  \<^verbatim>\<open>handleStreamStart\<close>, \<^verbatim>\<open>handleStreamStop\<close> and \<^verbatim>\<open>handleRestreamStart\<close> is a suspension
  point at which any other event may be handled, and every awaited query may be rejected.
  Each invocation of these handlers is a task whose program counter names the \<^verbatim>\<open>await\<close>
  it is suspended at, with the locals that are live there. \<^verbatim>\<open>handleRestreamStop\<close> and the
  \<^verbatim>\<open>close\<close> handler have no \<^verbatim>\<open>await\<close> and run in one step.
\<close>

subsection \<open>Data\<close>

datatype dest_status = D_pending | D_active | D_failed | D_stopped

record destination_row =
  stream_id :: string
  social_account_id :: string
  d_status :: dest_status
  error_message :: "string option"
  rtmp_url :: "string option"

record social_account =
  platform :: string
  is_active :: bool
  access_token :: string
  page_id :: "string option"
  platform_user_id :: "string option"

record rchild =
  rc_dest :: string
  rc_source :: string
  rc_target :: string
  rc_sigterm :: bool
  rc_exited :: bool

datatype reffect =
    Resolver_returned string
  | Restream_spawned pid string
  | Wrote_status string dest_status
  | Handler_rejected string


text \<open>A row of the query of \<^verbatim>\<open>handleStreamStart\<close>: destination id, account id, platform.\<close>

type_synonym dest_row = "string \<times> string \<times> string"

text \<open>
  The suspension points, by source line. \<^verbatim>\<open>handleStreamStart\<close>: the destination query
  (532), the resolver call for the current row (545), the failed write of the null
  branch (549), the active write (563), the failed write of the \<^verbatim>\<open>catch\<close> block (569);
  each carries the stream key, the current row and the rows still to come.
  \<^verbatim>\<open>handleStreamStop\<close>: the query for active destinations (582) and the update (596).
  \<^verbatim>\<open>handleRestreamStart\<close>: the resolver call (607), the failed write (610) and the
  active write (621). \<open>Finished\<close>: the handler returned. \<open>Crashed\<close>: an exception left
  the handler, whose promise rejected and was logged by \<^verbatim>\<open>main\<close>.
\<close>

datatype rpc =
    Fan_select string string
  | Fan_resolver string dest_row "dest_row list"
  | Fan_failed_write string dest_row "dest_row list"
  | Fan_active_write string dest_row "dest_row list" "string option"
  | Fan_catch_write string dest_row "dest_row list" string
  | Stop_select string
  | Stop_update string
  | Man_resolver string string string string
  | Man_failed_write string
  | Man_active_write string
  | Finished
  | Crashed string

text \<open>
  The state: the \<^verbatim>\<open>activeProcesses\<close> map, the subprocesses spawned so far, the handler
  tasks, and the tables of the store. What lies outside the repository is given as
  tables too: \<open>decrypts\<close> maps a stored token to its plaintext (a token without entry
  makes \<^verbatim>\<open>decrypt\<close> throw), \<open>json_parse\<close> maps a plaintext to the \<^verbatim>\<open>rtmpUrl\<close> and
  \<^verbatim>\<open>streamKey\<close> properties of what \<^verbatim>\<open>JSON.parse\<close> returns for it (\<open>None\<close> for an
  undefined property; no entry when parsing or the property access throws; a property
  that is not a string stands here as the text it renders to), and the three platform
  tables map what the code sends (the page id and the access token for facebook, the
  access token for the three calls to youtube, the broadcaster id and the access token for
  twitch) to the fields it reads from the answer: \<^verbatim>\<open>stream_url\<close>, \<^verbatim>\<open>stream_key\<close> and
  \<^verbatim>\<open>secure_stream_url\<close>; \<^verbatim>\<open>ingestionAddress\<close> and \<^verbatim>\<open>streamName\<close>; the \<^verbatim>\<open>stream_key\<close> of
  the first entry. A request without entry is one whose call throws. \<open>published\<close> is what
  the API has put on the bus, \<open>rtrace\<close> logs resolver returns, spawns and status writes.
\<close>

record restream_state =
  activeProcesses :: "(string \<times> pid) list"
  rchildren :: "rchild list"
  rtasks :: "rpc list"
  restream_destinations :: "(string \<times> destination_row) list"
  social_accounts :: "(string \<times> social_account) list"
  streams :: "(string \<times> string) list"
  decrypts :: "(string \<times> string) list"
  json_parse :: "(string \<times> string option \<times> string option) list"
  facebook_api :: "((string \<times> string) \<times> string option \<times> string option \<times> string option) list"
  youtube_api :: "(string \<times> string option \<times> string option) list"
  twitch_api :: "((string option \<times> string) \<times> string option) list"
  published :: "string list"
  rtrace :: "reffect list"

datatype revent =
    Stream_start string string
  | Stream_stop string
  | Restream_start string string string string
  | Restream_stop string
  | Restream_close pid "int option"
  | Api_restream_stop string string
  | Store_ok nat
  | Store_failed nat string
  | Resolver_returns nat

subsection \<open>Credential resolution\<close>

text \<open>\<^verbatim>\<open>x || d\<close> on a possibly undefined string: undefined and the empty string give
  \<open>d\<close>. \<^verbatim>\<open>`${x}`\<close> renders undefined as the text \<^verbatim>\<open>undefined\<close>.
  \<^verbatim>\<open>s.split('/').pop()\<close> is what follows the last slash.\<close>

definition or_else :: "string option \<Rightarrow> string \<Rightarrow> string" where
  "or_else x d = (case x of None \<Rightarrow> d | Some v \<Rightarrow> if v = [] then d else v)"

definition js_str :: "string option \<Rightarrow> string" where
  "js_str x = (case x of None \<Rightarrow> ''undefined'' | Some v \<Rightarrow> v)"

definition last_segment :: "string \<Rightarrow> string" where
  "last_segment s = rev (takeWhile (\<lambda>c. c \<noteq> CHR ''/'') (rev s))"

text \<open>\<^verbatim>\<open>getPlatformRtmpUrl\<close> (lines 335-479): \<open>Inl\<close> is an exception leaving the function
  (\<^verbatim>\<open>decrypt\<close> is outside every \<^verbatim>\<open>try\<close>), \<open>Inr None\<close> is the \<^verbatim>\<open>null\<close> it returns for a
  missing account, an unknown platform or an error caught in a platform branch, and
  \<open>Inr (Some (u, k))\<close> is the object with properties \<^verbatim>\<open>rtmpUrl\<close> and \<^verbatim>\<open>streamKey\<close>.\<close>

definition getPlatformRtmpUrl ::
  "restream_state \<Rightarrow> string \<Rightarrow> string \<Rightarrow> string + (string option \<times> string option) option" where
  "getPlatformRtmpUrl st plat socialAccountId =
     (case map_of (social_accounts st) socialAccountId of
        None \<Rightarrow> Inr None
      | Some account \<Rightarrow>
          (case map_of (decrypts st) (access_token account) of
             None \<Rightarrow> Inl ''Error: Malformed UTF-8 data''
           | Some accessToken \<Rightarrow>
               if plat = ''facebook'' then
                 (case map_of (facebook_api st) (or_else (page_id account) ''me'', accessToken) of
                    None \<Rightarrow> Inr None
                  | Some (stream_url, stream_key, secure_stream_url) \<Rightarrow>
                      Inr (Some
                        (Some (or_else stream_url ''rtmps://live-api-s.facebook.com:443/rtmp/''),
                         Some (or_else stream_key
                                 (or_else (map_option last_segment secure_stream_url) [])))))
               else if plat = ''youtube'' then
                 (case map_of (youtube_api st) accessToken of
                    None \<Rightarrow> Inr None
                  | Some (ingestionAddress, streamName) \<Rightarrow>
                      Inr (Some
                        (Some (or_else ingestionAddress ''rtmp://a.rtmp.youtube.com/live2''),
                         Some (or_else streamName []))))
               else if plat = ''twitch'' then
                 (case map_of (twitch_api st) (platform_user_id account, accessToken) of
                    None \<Rightarrow> Inr None
                  | Some stream_key \<Rightarrow>
                      Inr (Some (Some ''rtmp://live.twitch.tv/app'', Some (or_else stream_key []))))
               else if plat = ''custom'' then
                 (case map_of (json_parse st) accessToken of
                    None \<Rightarrow> Inr None
                  | Some (u, k) \<Rightarrow> Inr (Some (u, k)))
               else Inr None))"

subsection \<open>Store writes and subprocesses\<close>

definition update_dest ::
  "(string \<times> destination_row \<Rightarrow> bool) \<Rightarrow> (destination_row \<Rightarrow> destination_row) \<Rightarrow>
   (string \<times> destination_row) list \<Rightarrow> (string \<times> destination_row) list" where
  "update_dest P f rows = map (\<lambda>(k, r). if P (k, r) then (k, f r) else (k, r)) rows"

definition write_dest ::
  "string \<Rightarrow> dest_status \<Rightarrow> (destination_row \<Rightarrow> destination_row) \<Rightarrow> restream_state \<Rightarrow> restream_state" where
  "write_dest d stat f st =
     st\<lparr>restream_destinations :=
          update_dest (\<lambda>(k, r). k = d) (\<lambda>r. f (r\<lparr>d_status := stat\<rparr>)) (restream_destinations st),
        rtrace := rtrace st @ [Wrote_status d stat]\<rparr>"

text \<open>\<^verbatim>\<open>startRestream\<close> (lines 482-525) followed by \<^verbatim>\<open>activeProcesses.set\<close>.\<close>

definition startRestream :: "string \<Rightarrow> string \<Rightarrow> string \<Rightarrow> restream_state \<Rightarrow> restream_state" where
  "startRestream sourceUrl destinationUrl destinationId st =
     st\<lparr>rchildren := rchildren st @
          [\<lparr>rc_dest = destinationId, rc_source = sourceUrl, rc_target = destinationUrl,
            rc_sigterm = False, rc_exited = False\<rparr>],
        activeProcesses := AList.update destinationId (length (rchildren st)) (activeProcesses st),
        rtrace := rtrace st @ [Restream_spawned (length (rchildren st)) destinationId]\<rparr>"

definition rkill :: "pid \<Rightarrow> restream_state \<Rightarrow> restream_state" where
  "rkill p st =
     (if p < length (rchildren st) \<and> \<not> rc_exited (rchildren st ! p)
      then st\<lparr>rchildren := (rchildren st)[p := (rchildren st ! p)\<lparr>rc_sigterm := True\<rparr>]\<rparr>
      else st)"

text \<open>The \<^verbatim>\<open>close\<close> handler installed by \<^verbatim>\<open>startRestream\<close> (lines 513-522).\<close>

definition restream_close :: "pid \<Rightarrow> int option \<Rightarrow> restream_state \<Rightarrow> restream_state" where
  "restream_close p code st =
     (if p < length (rchildren st) \<and> \<not> rc_exited (rchildren st ! p) then
        (let d = rc_dest (rchildren st ! p);
             st1 = st\<lparr>rchildren := (rchildren st)[p := (rchildren st ! p)\<lparr>rc_exited := True\<rparr>],
                      activeProcesses := AList.delete d (activeProcesses st)\<rparr>
         in write_dest d (if code = Some 0 then D_stopped else D_failed) (\<lambda>r. r) st1)
      else st)"

definition set_rpc :: "nat \<Rightarrow> rpc \<Rightarrow> restream_state \<Rightarrow> restream_state" where
  "set_rpc tid k st = st\<lparr>rtasks := (rtasks st)[tid := k]\<rparr>"

subsection \<open>handleStreamStart\<close>

text \<open>The rows of the query of \<^verbatim>\<open>handleStreamStart\<close> (lines 532-538): destination id,
  account id and platform of every destination of the stream whose account is active.\<close>

definition enabled_destinations :: "restream_state \<Rightarrow> string \<Rightarrow> dest_row list" where
  "enabled_destinations st streamId =
     List.map_filter
       (\<lambda>(d, r). if stream_id r = streamId
          then (case map_of (social_accounts st) (social_account_id r) of
                  Some acct \<Rightarrow> if is_active acct then Some (d, social_account_id r, platform acct)
                               else None
                | None \<Rightarrow> None)
          else None)
       (restream_destinations st)"

text \<open>The head of the \<^verbatim>\<open>for\<close> loop (line 542): the next row, if any, is taken and its
  resolver call is issued.\<close>

definition fan_next :: "nat \<Rightarrow> string \<Rightarrow> dest_row list \<Rightarrow> restream_state \<Rightarrow> restream_state" where
  "fan_next tid streamKey rows st =
     (case rows of
        [] \<Rightarrow> set_rpc tid Finished st
      | dest # rest \<Rightarrow> set_rpc tid (Fan_resolver streamKey dest rest) st)"

text \<open>Lines 545-561: the resolver call of the current row has settled with the given
  result. An exception goes to the \<^verbatim>\<open>catch\<close> block, whose write is issued with
  \<^verbatim>\<open>String(error)\<close>; \<^verbatim>\<open>null\<close> issues the failed write of line 549; otherwise the
  subprocess is spawned and registered and the active write is issued.\<close>

definition fan_resolved ::
  "nat \<Rightarrow> string \<Rightarrow> dest_row \<Rightarrow> dest_row list \<Rightarrow>
   string + (string option \<times> string option) option \<Rightarrow> restream_state \<Rightarrow> restream_state" where
  "fan_resolved tid streamKey dest rest res st =
     (case dest of (d, sa, plat) \<Rightarrow>
        (case res of
           Inl err \<Rightarrow> set_rpc tid (Fan_catch_write streamKey dest rest err) st
         | Inr None \<Rightarrow> set_rpc tid (Fan_failed_write streamKey dest rest) st
         | Inr (Some (u, k)) \<Rightarrow>
             set_rpc tid (Fan_active_write streamKey dest rest u)
               (startRestream (''rtmp://srs:1935/live/'' @ streamKey)
                  (js_str u @ ''/'' @ js_str k) d st)))"

subsection \<open>handleStreamStop, handleRestreamStart, handleRestreamStop\<close>

definition stop_one :: "string \<Rightarrow> restream_state \<Rightarrow> restream_state" where
  "stop_one d st =
     (case map_of (activeProcesses st) d of
        None \<Rightarrow> st
      | Some p \<Rightarrow> (rkill p st)\<lparr>activeProcesses := AList.delete d (activeProcesses st)\<rparr>)"

definition active_of :: "string \<Rightarrow> string \<times> destination_row \<Rightarrow> bool" where
  "active_of streamId kr = (stream_id (snd kr) = streamId \<and> d_status (snd kr) = D_active)"

text \<open>\<^verbatim>\<open>handleStreamStop\<close>, lines 588-594: the query for the active destinations has
  returned; their registered subprocesses are signalled and unregistered, and the update
  is issued. Lines 596-599: the update completes on the rows that are active then.\<close>

definition stop_selected :: "nat \<Rightarrow> string \<Rightarrow> restream_state \<Rightarrow> restream_state" where
  "stop_selected tid streamId st =
     set_rpc tid (Stop_update streamId)
       (fold stop_one (map fst (filter (active_of streamId) (restream_destinations st))) st)"

definition stop_updated :: "nat \<Rightarrow> string \<Rightarrow> restream_state \<Rightarrow> restream_state" where
  "stop_updated tid streamId st =
     set_rpc tid Finished
       (st\<lparr>restream_destinations :=
             update_dest (active_of streamId) (\<lambda>r. r\<lparr>d_status := D_stopped\<rparr>)
               (restream_destinations st),
           rtrace := rtrace st @
             map (\<lambda>d. Wrote_status d D_stopped)
               (map fst (filter (active_of streamId) (restream_destinations st)))\<rparr>)"

text \<open>\<^verbatim>\<open>handleRestreamStart\<close> (lines 603-625) has no \<^verbatim>\<open>try\<close>: an exception of the
  resolver rejects the handler.\<close>

definition man_resolved ::
  "nat \<Rightarrow> string \<Rightarrow> string \<Rightarrow>
   string + (string option \<times> string option) option \<Rightarrow> restream_state \<Rightarrow> restream_state" where
  "man_resolved tid destinationId streamKey res st =
     (case res of
        Inl err \<Rightarrow> set_rpc tid (Crashed err) st
      | Inr None \<Rightarrow> set_rpc tid (Man_failed_write destinationId) st
      | Inr (Some (u, k)) \<Rightarrow>
          set_rpc tid (Man_active_write destinationId)
            (startRestream (''rtmp://srs:1935/live/'' @ streamKey)
               (js_str u @ ''/'' @ js_str k) destinationId st))"

text \<open>\<^verbatim>\<open>handleRestreamStop\<close> (lines 628-636).\<close>

definition handleRestreamStop :: "string \<Rightarrow> restream_state \<Rightarrow> string + restream_state" where
  "handleRestreamStop destinationId st = Inr (stop_one destinationId st)"

text \<open>The route \<^verbatim>\<open>POST /:id/stop\<close> of \<^verbatim>\<open>restream.ts\<close> (lines 148-174): the update
  touches the destination only when its stream belongs to the user; no row means 404,
  otherwise \<^verbatim>\<open>restream:stop\<close> is published.\<close>

definition owned_by :: "restream_state \<Rightarrow> string \<Rightarrow> string \<Rightarrow> string \<times> destination_row \<Rightarrow> bool" where
  "owned_by st user d kr = (fst kr = d \<and> map_of (streams st) (stream_id (snd kr)) = Some user)"

definition route_stop :: "string \<Rightarrow> string \<Rightarrow> restream_state \<Rightarrow> string + restream_state" where
  "route_stop user d st =
     (if filter (owned_by st user d) (restream_destinations st) = []
      then Inl ''Destination not found''
      else Inr (st\<lparr>restream_destinations :=
                     update_dest (owned_by st user d) (\<lambda>r. r\<lparr>d_status := D_stopped\<rparr>)
                       (restream_destinations st),
                   published := published st @ [d]\<rparr>))"

definition settle :: "restream_state \<Rightarrow> string + restream_state \<Rightarrow> restream_state" where
  "settle st r = (case r of Inl m \<Rightarrow> st\<lparr>rtrace := rtrace st @ [Handler_rejected m]\<rparr> | Inr st' \<Rightarrow> st')"

subsection \<open>Events\<close>

text \<open>An awaited query completes. The destination query and the query for active
  destinations read the store, the status writes change it, at the moment of completion.\<close>

definition store_ok :: "nat \<Rightarrow> restream_state \<Rightarrow> restream_state" where
  "store_ok tid st =
     (if tid < length (rtasks st) then
        (case rtasks st ! tid of
           Fan_select streamId streamKey \<Rightarrow>
             fan_next tid streamKey (enabled_destinations st streamId) st
         | Fan_failed_write streamKey dest rest \<Rightarrow>
             fan_next tid streamKey rest
               (write_dest (fst dest) D_failed
                  (\<lambda>r. r\<lparr>error_message := Some ''Failed to get platform RTMP credentials''\<rparr>) st)
         | Fan_active_write streamKey dest rest u \<Rightarrow>
             fan_next tid streamKey rest
               (write_dest (fst dest) D_active (\<lambda>r. r\<lparr>rtmp_url := u\<rparr>) st)
         | Fan_catch_write streamKey dest rest err \<Rightarrow>
             fan_next tid streamKey rest
               (write_dest (fst dest) D_failed (\<lambda>r. r\<lparr>error_message := Some err\<rparr>) st)
         | Stop_select streamId \<Rightarrow> stop_selected tid streamId st
         | Stop_update streamId \<Rightarrow> stop_updated tid streamId st
         | Man_failed_write d \<Rightarrow>
             set_rpc tid Finished
               (write_dest d D_failed
                  (\<lambda>r. r\<lparr>error_message := Some ''Failed to get RTMP credentials''\<rparr>) st)
         | Man_active_write d \<Rightarrow> set_rpc tid Finished (write_dest d D_active (\<lambda>r. r) st)
         | _ \<Rightarrow> st)
      else st)"

text \<open>An awaited query is rejected with the given error text. Inside the \<^verbatim>\<open>try\<close> of
  \<^verbatim>\<open>handleStreamStart\<close> (the account query of the resolver, the writes of lines 549 and
  563) the exception goes to the \<^verbatim>\<open>catch\<close> block; the write of the \<^verbatim>\<open>catch\<close> block itself
  and every query of the other handlers are unguarded.\<close>

definition store_failed :: "nat \<Rightarrow> string \<Rightarrow> restream_state \<Rightarrow> restream_state" where
  "store_failed tid err st =
     (if tid < length (rtasks st) then
        (case rtasks st ! tid of
           Fan_select streamId streamKey \<Rightarrow> set_rpc tid (Crashed err) st
         | Fan_resolver streamKey dest rest \<Rightarrow>
             set_rpc tid (Fan_catch_write streamKey dest rest err) st
         | Fan_failed_write streamKey dest rest \<Rightarrow>
             set_rpc tid (Fan_catch_write streamKey dest rest err) st
         | Fan_active_write streamKey dest rest u \<Rightarrow>
             set_rpc tid (Fan_catch_write streamKey dest rest err) st
         | Fan_catch_write streamKey dest rest e \<Rightarrow> set_rpc tid (Crashed err) st
         | Stop_select streamId \<Rightarrow> set_rpc tid (Crashed err) st
         | Stop_update streamId \<Rightarrow> set_rpc tid (Crashed err) st
         | Man_resolver d streamKey sa plat \<Rightarrow> set_rpc tid (Crashed err) st
         | Man_failed_write d \<Rightarrow> set_rpc tid (Crashed err) st
         | Man_active_write d \<Rightarrow> set_rpc tid (Crashed err) st
         | _ \<Rightarrow> st)
      else st)"

text \<open>The resolver call a task waits for settles with what \<^verbatim>\<open>getPlatformRtmpUrl\<close>
  gives for its platform and account. The calls inside the resolver are not separate
  events: no event changes a table the resolver reads, so it gives the same result
  whenever it reads them; the rejection of its account query is the event
  \<open>Store_failed\<close> at the resolver call.\<close>

definition resolver_returns :: "nat \<Rightarrow> restream_state \<Rightarrow> restream_state" where
  "resolver_returns tid st =
     (if tid < length (rtasks st) then
        (case rtasks st ! tid of
           Fan_resolver streamKey dest rest \<Rightarrow>
             fan_resolved tid streamKey dest rest
               (getPlatformRtmpUrl st (snd (snd dest)) (fst (snd dest)))
               (st\<lparr>rtrace := rtrace st @ [Resolver_returned (fst dest)]\<rparr>)
         | Man_resolver d streamKey sa plat \<Rightarrow>
             man_resolved tid d streamKey (getPlatformRtmpUrl st plat sa)
               (st\<lparr>rtrace := rtrace st @ [Resolver_returned d]\<rparr>)
         | _ \<Rightarrow> st)
      else st)"

text \<open>A bus message starts a handler, which runs up to its first \<^verbatim>\<open>await\<close>:
  the destination query of \<^verbatim>\<open>handleStreamStart\<close> (line 532), the query for active
  destinations of \<^verbatim>\<open>handleStreamStop\<close> (line 582), the resolver call of
  \<^verbatim>\<open>handleRestreamStart\<close> (line 607).\<close>

definition handleStreamStart :: "string \<Rightarrow> string \<Rightarrow> restream_state \<Rightarrow> restream_state" where
  "handleStreamStart streamId streamKey st = st\<lparr>rtasks := rtasks st @ [Fan_select streamId streamKey]\<rparr>"

definition handleStreamStop :: "string \<Rightarrow> restream_state \<Rightarrow> restream_state" where
  "handleStreamStop streamId st = st\<lparr>rtasks := rtasks st @ [Stop_select streamId]\<rparr>"

definition handleRestreamStart ::
  "string \<Rightarrow> string \<Rightarrow> string \<Rightarrow> string \<Rightarrow> restream_state \<Rightarrow> restream_state" where
  "handleRestreamStart destinationId streamKey socialAccountId plat st =
     st\<lparr>rtasks := rtasks st @ [Man_resolver destinationId streamKey socialAccountId plat]\<rparr>"

fun rstep :: "revent \<Rightarrow> restream_state \<Rightarrow> restream_state" where
  "rstep (Stream_start sid key) st = handleStreamStart sid key st"
| "rstep (Stream_stop sid) st = handleStreamStop sid st"
| "rstep (Restream_start d key sa plat) st = handleRestreamStart d key sa plat st"
| "rstep (Restream_stop d) st = settle st (handleRestreamStop d st)"
| "rstep (Restream_close p code) st = restream_close p code st"
| "rstep (Api_restream_stop user d) st = settle st (route_stop user d st)"
| "rstep (Store_ok tid) st = store_ok tid st"
| "rstep (Store_failed tid err) st = store_failed tid err st"
| "rstep (Resolver_returns tid) st = resolver_returns tid st"

fun rrun :: "revent list \<Rightarrow> restream_state \<Rightarrow> restream_state" where
  "rrun [] st = st"
| "rrun (e # es) st = rrun es (rstep e st)"

definition dest_status_of :: "restream_state \<Rightarrow> string \<Rightarrow> dest_status option" where
  "dest_status_of st d = map_option d_status (map_of (restream_destinations st) d)"


section \<open>Schedules, sample states and auxiliary predicates\<close>

text \<open>The events of an undisturbed run of items \<open>i..<n\<close> of a task: for each item the
  index write completes, then the subprocess of that item closes with code 0.\<close>

definition clean_exits :: "nat \<Rightarrow> pid \<Rightarrow> nat \<Rightarrow> nat \<Rightarrow> event list" where
  "clean_exits tid p0 i n = concat (map (\<lambda>j. [Query_ok tid, Child_close (p0 + j) (Some 0)]) [i..<n])"

text \<open>A whole non-looping run started in state \<open>s\<close>: the start message, the playlist
  query, every item exiting cleanly, the final status write.\<close>

definition clean_run :: "playout_state \<Rightarrow> string \<Rightarrow> string \<Rightarrow> event list" where
  "clean_run s c k =
     [Playout_start c k False, Query_ok (length (tasks s))]
     @ clean_exits (length (tasks s)) (length (children s)) 0 (length (getPlaylist s c))
     @ [Query_ok (length (tasks s))]"

text \<open>Task \<open>tid\<close> of a non-looping run on channel \<open>c\<close> is suspended at the index write of
  item \<open>i\<close> of the snapshot \<open>pl\<close> held by the registered object \<open>a\<close>.\<close>

definition at_item ::
  "playout_state \<Rightarrow> nat \<Rightarrow> string \<Rightarrow> string \<Rightarrow> ref \<Rightarrow> PlaylistItem list \<Rightarrow> nat \<Rightarrow> bool" where
  "at_item s tid c k a pl i =
    (\<not> hung s \<and> tid < length (tasks s)
     \<and> tasks s ! tid = \<lparr>t_channelId = c, t_streamKey = k, t_loop = False,
                         t_pc = Await_index_write i a (pl ! i)\<rparr>
     \<and> map_of (activePlayouts s) c = Some a \<and> a < length (heap s)
     \<and> playlist (heap s ! a) = pl \<and> i < length pl)"

text \<open>Sample states of the playout service: a channel \<open>C\<close> with two ready items, whose
  row says running (the start route writes that before it publishes the start message);
  the same with an empty playlist and with a one-item playlist; channel \<open>C\<close> while its first
  item plays; the same after a second start; and after a failed index write.\<close>

definition demo_items :: "PlaylistItem list" where
  "demo_items = [mk_item ''v1'' 0, mk_item ''v2'' 1]"

definition demo :: playout_state where
  "demo = boot [(''C'', \<lparr>status = Running, current_item_index = 0\<rparr>)] [(''C'', demo_items)]"

definition demo_empty :: playout_state where
  "demo_empty = boot [(''C'', \<lparr>status = Running, current_item_index = 0\<rparr>)] [(''C'', [])]"

definition demo_loop :: playout_state where
  "demo_loop = boot [(''C'', \<lparr>status = Running, current_item_index = 0\<rparr>)] [(''C'', [mk_item ''v1'' 0])]"

definition demo_playing :: playout_state where
  "demo_playing = run [Playout_start ''C'' ''key'' False, Query_ok 0, Query_ok 0] demo"

definition demo_restarted :: playout_state where
  "demo_restarted = run [Playout_start ''C'' ''key'' False, Query_ok 1, Query_ok 1] demo_playing"

definition demo_write_failed :: playout_state where
  "demo_write_failed = run [Playout_start ''C'' ''key'' False, Query_ok 0, Query_failed 0] demo"

text \<open>A looping run of the one-item playlist up to the point where its only (hence last)
  item is playing and the stored playlist has been edited to two items.\<close>

definition last_item_playing :: "event list" where
  "last_item_playing =
     [Playout_start ''C'' ''key'' True, Query_ok 0, Query_ok 0, Playlist_edit ''C'' demo_items]"

text \<open>The events of an undisturbed stream-start fan-out in state \<open>st\<close>: the start
  message, the destination query, and for each of its rows the return of the resolver
  call followed by the completion of the status write that the handler then issues. No
  other event comes in between and no query is rejected.\<close>

definition fan_events :: "nat \<Rightarrow> nat \<Rightarrow> revent list" where
  "fan_events tid n = concat (replicate n [Resolver_returns tid, Store_ok tid])"

definition fanout_run :: "restream_state \<Rightarrow> string \<Rightarrow> string \<Rightarrow> revent list" where
  "fanout_run st streamId streamKey =
     [Stream_start streamId streamKey, Store_ok (length (rtasks st))]
     @ fan_events (length (rtasks st)) (length (enabled_destinations st streamId))"










text \<open>A sample store of the restream service: stream \<open>S\<close> of user \<open>u\<close> with destinations
  \<open>A\<close> (twitch), \<open>B\<close> (youtube) and \<open>C\<close> (custom) on active accounts; every token decrypts,
  twitch answers with a stream key, the calls to youtube throw, and the custom token parses
  to an ingest URL and a key. Then the state after an undisturbed fan-out, and the state
  after the subprocess of \<open>A\<close> has then exited on its own with code 1.\<close>

definition rdest :: "string \<Rightarrow> destination_row" where
  "rdest sa = \<lparr>stream_id = ''S'', social_account_id = sa, d_status = D_pending,
              error_message = None, rtmp_url = None\<rparr>"

definition rdemo :: restream_state where
  "rdemo = \<lparr>activeProcesses = [], rchildren = [], rtasks = [],
     restream_destinations = [(''A'', rdest ''a''), (''B'', rdest ''b''), (''C'', rdest ''c'')],
     social_accounts =
       [(''a'', \<lparr>platform = ''twitch'', is_active = True, access_token = ''xa'',
                 page_id = None, platform_user_id = Some ''ua''\<rparr>),
        (''b'', \<lparr>platform = ''youtube'', is_active = True, access_token = ''xb'',
                 page_id = None, platform_user_id = None\<rparr>),
        (''c'', \<lparr>platform = ''custom'', is_active = True, access_token = ''xc'',
                 page_id = None, platform_user_id = None\<rparr>)],
     streams = [(''S'', ''u'')],
     decrypts = [(''xa'', ''ta''), (''xb'', ''tb''), (''xc'', ''tc'')],
     json_parse = [(''tc'', Some ''rtmp://c'', Some ''kc'')],
     facebook_api = [], youtube_api = [], twitch_api = [((Some ''ua'', ''ta''), Some ''ka'')],
     published = [], rtrace = []\<rparr>"





section \<open>Properties of the playout service\<close>

subsection \<open>Auxiliary facts\<close>

lemma map_of_update_channel:
  "map_of (update_channel c f rows) k =
     (if k = c then map_option f (map_of rows k) else map_of rows k)"
  by (induction rows) (auto simp: update_channel_def)

lemma getPlaylist_tasks_update [simp]: "getPlaylist (s\<lparr>tasks := x\<rparr>) c = getPlaylist s c"
  by (simp add: getPlaylist_def)

lemma run_append: "run (xs @ ys) s = run ys (run xs s)"
  by (induction xs arbitrary: s) auto

lemma clean_exits_unfold:
  "i < n \<Longrightarrow> clean_exits tid p0 i n =
     [Query_ok tid, Child_close (p0 + i) (Some 0)] @ clean_exits tid p0 (Suc i) n"
  by (simp add: clean_exits_def upt_conv_Cons)

lemma map_of_Some_key: "map_of xs k = Some v \<Longrightarrow> k \<in> set (map fst xs)"
  by (metis map_of_eq_None_iff option.distinct(1) set_map)

lemma map_of_None_key: "map_of xs k = None \<Longrightarrow> k \<notin> fst ` set xs"
  by (simp add: map_of_eq_None_iff)

subsection \<open>An undisturbed non-looping run\<close>

text \<open>One item: the index write completes (the index is persisted, then the subprocess
  is spawned), the subprocess exits with code 0, and the loop either suspends at the next
  index write or leaves the loop and releases the registry entry.\<close>

lemma clean_item_step:
  assumes "at_item s tid c k a pl i"
  defines "s' \<equiv> run [Query_ok tid, Child_close (length (children s)) (Some 0)] s"
  shows "trace s' = trace s @ [Wrote_index c i, Spawned (length (children s)) c (pl ! i)]"
    and "length (children s') = Suc (length (children s))"
    and "map_of (linear_channels s') c =
           map_option (\<lambda>r. r\<lparr>current_item_index := i\<rparr>) (map_of (linear_channels s) c)"
    and "Suc i < length pl \<Longrightarrow> at_item s' tid c k a pl (Suc i)"
    and "\<not> Suc i < length pl \<Longrightarrow> \<not> hung s' \<and> tid < length (tasks s')
           \<and> tasks s' ! tid = \<lparr>t_channelId = c, t_streamKey = k, t_loop = False,
                                 t_pc = Await_final_write\<rparr>
           \<and> map_of (activePlayouts s') c = None"
  using assms
  by (auto simp add: at_item_def Let_def query_ok_def playItem_def write_index_def set_pc_def
         child_close_def mark_exited_def playItem_resolves_def on_resolve_def loop_head_def
         cleanup_def map_of_update_channel nth_append delete_conv')

lemma clean_items:
  assumes "at_item s tid c k a pl i" and "length (children s) = p0 + i"
  defines "s' \<equiv> run (clean_exits tid p0 i (length pl)) s"
  shows "trace s' = trace s @ concat (map (\<lambda>j. [Wrote_index c j, Spawned (p0 + j) c (pl ! j)])
                                      [i..<length pl])
       \<and> map_of (linear_channels s') c =
           map_option (\<lambda>r. r\<lparr>current_item_index := length pl - 1\<rparr>) (map_of (linear_channels s) c)
       \<and> \<not> hung s' \<and> tid < length (tasks s')
       \<and> tasks s' ! tid = \<lparr>t_channelId = c, t_streamKey = k, t_loop = False,
                             t_pc = Await_final_write\<rparr>
       \<and> map_of (activePlayouts s') c = None"
  using assms(1,2) unfolding s'_def
proof (induction "length pl - i" arbitrary: i s)
  case 0
  then show ?case by (simp add: at_item_def)
next
  case (Suc m)
  define s1 where "s1 = run [Query_ok tid, Child_close (length (children s)) (Some 0)] s"
  have i: "i < length pl" using Suc.prems by (simp add: at_item_def)
  note st = clean_item_step[OF Suc.prems(1), folded s1_def]
  have unf: "run (clean_exits tid p0 i (length pl)) s =
             run (clean_exits tid p0 (Suc i) (length pl)) s1"
    using i Suc.prems(2) by (simp add: clean_exits_unfold s1_def)
  have tr: "concat (map (\<lambda>j. [Wrote_index c j, Spawned (p0 + j) c (pl ! j)]) [i..<length pl]) =
      [Wrote_index c i, Spawned (length (children s)) c (pl ! i)]
      @ concat (map (\<lambda>j. [Wrote_index c j, Spawned (p0 + j) c (pl ! j)]) [Suc i..<length pl])"
    using i Suc.prems(2) by (simp add: upt_conv_Cons)
  show ?case
  proof (cases "Suc i < length pl")
    case True
    have m: "m = length pl - Suc i" using Suc.hyps(2) by simp
    have ch: "length (children s1) = p0 + Suc i" using st(2) Suc.prems(2) by simp
    note IH = Suc.hyps(1)[OF m st(4)[OF True] ch]
    show ?thesis
      unfolding unf tr using IH st(1) st(3)
      by (simp add: option.map_comp comp_def)
  next
    case False
    then have last: "length pl - 1 = i" "[Suc i..<length pl] = []" using i by simp_all
    have e: "clean_exits tid p0 (Suc i) (length pl) = []" using last by (simp add: clean_exits_def)
    show ?thesis
      unfolding unf e tr using st(1) st(3) st(5)[OF False] last
      by simp
  qed
qed

text \<open>
  Claim C4. For every non-empty playlist \<open>pl\<close> of a channel \<open>c\<close>, started without the
  loop flag in any state of the service that is not hung, and with every item's
  subprocess exiting with code 0: the store writes and spawns of the run are, in this
  order, index 0, spawn of item 0, index 1, spawn of item 1, ..., index N-1, spawn of item
  N-1, status stopped; afterwards the channel has no registry entry, its row has status
  stopped (and index N-1), and the control task has returned.
\<close>

theorem nonlooping_playlist_plays_through:
  assumes "\<not> hung s" and "getPlaylist s c = pl" and "pl \<noteq> []"
  shows "trace (run (clean_run s c k) s) =
           trace s @ concat (map (\<lambda>j. [Wrote_index c j, Spawned (length (children s) + j) c (pl ! j)])
                              [0..<length pl])
                   @ [Wrote_stopped c]
       \<and> map_of (activePlayouts (run (clean_run s c k) s)) c = None
       \<and> map_of (linear_channels (run (clean_run s c k) s)) c =
           map_option (\<lambda>r. r\<lparr>current_item_index := length pl - 1, status := Stopped\<rparr>)
             (map_of (linear_channels s) c)
       \<and> t_pc (tasks (run (clean_run s c k) s) ! length (tasks s)) = Returned"
proof -
  define tid where "tid = length (tasks s)"
  define s1 where "s1 = run [Playout_start c k False, Query_ok tid] s"
  define s2 where "s2 = run (clean_exits tid (length (children s)) 0 (length pl)) s1"
  have s': "run (clean_run s c k) s = run [Query_ok tid] s2"
    unfolding clean_run_def assms(2) tid_def s1_def s2_def by (simp only: run_append)
  have a1: "at_item s1 tid c k (length (heap s)) pl 0"
    using assms
    by (simp add: s1_def tid_def at_item_def startPlayout_def query_ok_def on_playlist_def
        loop_head_def set_pc_def update_conv' Let_def)
  have b1: "trace s1 = trace s" "linear_channels s1 = linear_channels s"
    "length (children s1) = length (children s) + 0"
    using assms
    by (simp_all add: s1_def tid_def startPlayout_def query_ok_def on_playlist_def
        loop_head_def set_pc_def update_conv' Let_def)
  note c = clean_items[OF a1 b1(3), folded s2_def]
  have "trace (run [Query_ok tid] s2) =
           trace s @ concat (map (\<lambda>j. [Wrote_index c j, Spawned (length (children s) + j) c (pl ! j)])
                              [0..<length pl])
                   @ [Wrote_stopped c]"
    using c b1 by (simp add: query_ok_def write_stopped_def set_pc_def)
  moreover have "map_of (activePlayouts (run [Query_ok tid] s2)) c = None"
    using c by (simp add: query_ok_def write_stopped_def set_pc_def)
  moreover have "map_of (linear_channels (run [Query_ok tid] s2)) c =
           map_option (\<lambda>r. r\<lparr>current_item_index := length pl - 1, status := Stopped\<rparr>)
             (map_of (linear_channels s) c)"
    using c b1 by (simp add: query_ok_def write_stopped_def set_pc_def map_of_update_channel
        option.map_comp comp_def)
  moreover have "t_pc (tasks (run [Query_ok tid] s2) ! tid) = Returned"
    using c by (simp add: query_ok_def write_stopped_def set_pc_def)
  ultimately show ?thesis unfolding s' tid_def by blast
qed

theorem nonlooping_playlist_plays_through_witness:
  "\<not> hung demo \<and> getPlaylist demo ''C'' = demo_items \<and> demo_items \<noteq> []
   \<and> trace (run (clean_run demo ''C'' ''key'') demo) =
       [Wrote_index ''C'' 0, Spawned 0 ''C'' (mk_item ''v1'' 0),
        Wrote_index ''C'' 1, Spawned 1 ''C'' (mk_item ''v2'' 1), Wrote_stopped ''C'']
   \<and> map_of (activePlayouts (run (clean_run demo ''C'' ''key'') demo)) ''C'' = None
   \<and> map_of (linear_channels (run (clean_run demo ''C'' ''key'') demo)) ''C'' =
       Some \<lparr>status = Stopped, current_item_index = 1\<rparr>"
proof -
  have h1: "\<not> hung demo" by (simp add: demo_def boot_def)
  have h2: "getPlaylist demo ''C'' = demo_items" by (simp add: demo_def boot_def getPlaylist_def)
  have h3: "demo_items \<noteq> []" by (simp add: demo_items_def)
  have u: "[0..<length demo_items] = [0, 1]" by (simp add: demo_items_def upt_rec)
  have t: "trace demo = []" "children demo = []"
    "map_of (linear_channels demo) ''C'' = Some \<lparr>status = Running, current_item_index = 0\<rparr>"
    by (simp_all add: demo_def boot_def)
  show ?thesis
    using nonlooping_playlist_plays_through [OF h1 h2 h3, of "''key''"] h1 h2 h3
    unfolding u t by (simp add: demo_items_def)
qed

subsection \<open>Start on an empty playlist\<close>

text \<open>
  Claim C9. When the playlist query of a start returns no rows, the handler writes
  status stopped for the channel and returns: the registry is exactly what it was (no
  entry is created), no subprocess is spawned, and the only effect is the status write.
\<close>

theorem start_on_empty_playlist_stops:
  assumes "\<not> hung s" and "getPlaylist s c = []"
  shows "activePlayouts (run [Playout_start c k lp, Query_ok (length (tasks s)), Query_ok (length (tasks s))] s)
           = activePlayouts s
       \<and> children (run [Playout_start c k lp, Query_ok (length (tasks s)), Query_ok (length (tasks s))] s)
           = children s
       \<and> trace (run [Playout_start c k lp, Query_ok (length (tasks s)), Query_ok (length (tasks s))] s)
           = trace s @ [Wrote_stopped c]
       \<and> map_of (linear_channels
            (run [Playout_start c k lp, Query_ok (length (tasks s)), Query_ok (length (tasks s))] s)) c
           = map_option (\<lambda>r. r\<lparr>status := Stopped\<rparr>) (map_of (linear_channels s) c)
       \<and> t_pc (tasks (run [Playout_start c k lp, Query_ok (length (tasks s)), Query_ok (length (tasks s))] s)
                ! length (tasks s)) = Returned"
  using assms
  by (simp add: Let_def startPlayout_def query_ok_def on_playlist_def set_pc_def
      write_stopped_def map_of_update_channel)

theorem start_on_empty_playlist_stops_witness:
  "\<not> hung demo_empty \<and> getPlaylist demo_empty ''C'' = []
   \<and> activePlayouts (run [Playout_start ''C'' ''key'' True, Query_ok 0, Query_ok 0] demo_empty) = []
   \<and> children (run [Playout_start ''C'' ''key'' True, Query_ok 0, Query_ok 0] demo_empty) = []
   \<and> map_of (linear_channels (run [Playout_start ''C'' ''key'' True, Query_ok 0, Query_ok 0] demo_empty)) ''C''
       = Some \<lparr>status = Stopped, current_item_index = 0\<rparr>"
proof -
  have h1: "\<not> hung demo_empty" by (simp add: demo_empty_def boot_def)
  have h2: "getPlaylist demo_empty ''C'' = []" by (simp add: demo_empty_def boot_def getPlaylist_def)
  have t: "tasks demo_empty = []" "activePlayouts demo_empty = []" "children demo_empty = []"
     "map_of (linear_channels demo_empty) ''C'' = Some \<lparr>status = Running, current_item_index = 0\<rparr>"
    by (simp_all add: demo_empty_def boot_def)
  show ?thesis
    using start_on_empty_playlist_stops [OF h1 h2, of "''key''" True] h1 h2
    unfolding t by simp
qed

subsection \<open>Exit codes\<close>

text \<open>Nothing the loop does after an exit looks at the subprocess list.\<close>

lemma children_update_commutes:
  "set_pc t k (s\<lparr>children := x\<rparr>) = (set_pc t k s)\<lparr>children := x\<rparr>"
  "cleanup t (s\<lparr>children := x\<rparr>) = (cleanup t s)\<lparr>children := x\<rparr>"
  "loop_head t r i (s\<lparr>children := x\<rparr>) = (loop_head t r i s)\<lparr>children := x\<rparr>"
  "on_resolve t i a (s\<lparr>children := x\<rparr>) = (on_resolve t i a s)\<lparr>children := x\<rparr>"
  "on_reject t i a (s\<lparr>children := x\<rparr>) = (on_reject t i a s)\<lparr>children := x\<rparr>"
  by (simp_all add: set_pc_def cleanup_def loop_head_def on_resolve_def on_reject_def Let_def
      split: option.split)

text \<open>
  Claim C10. The promise of \<^verbatim>\<open>playItem\<close> resolves exactly on exit codes 0 and 255.
  A close with code 255 leaves the service in the same state as a close with code 0.
  For a task waiting on the subprocess, a close with code 0 or 255 runs the rest of the
  \<^verbatim>\<open>try\<close> block and every other code (a signal exit included, where the code is null)
  runs the \<^verbatim>\<open>catch\<close> block, and the two differ observably: on 0 and 255 the
  \<^verbatim>\<open>currentItem\<close> of the registry object becomes the index after the item that was
  playing, on every other code the registry objects stay as they are; in both cases the
  subprocess is marked exited and neither the store nor the trace changes. With the
  object registered and a non-empty playlist, the task goes on to the index write of the
  next item whatever the code was; after the last item of a non-looping run it leaves the
  loop and unregisters the channel; after the last item of a looping run it refreshes the
  playlist on 0 and 255 and goes straight to the index write of item 0 otherwise. What a
  close does to tasks, registry objects, registry, store and trace is the same whether or
  not the service had sent SIGTERM to the subprocess before, so an exit with 255 that
  ffmpeg produced by itself is handled like a skip or stop.
\<close>

theorem playItem_resolves_iff_0_or_255:
  "(playItem_resolves code \<longleftrightarrow> code = Some 0 \<or> code = Some 255)
   \<and> step (Child_close p (Some 255)) s = step (Child_close p (Some 0)) s
   \<and> (\<not> hung s \<and> p < length (children s) \<and> \<not> exited (children s ! p)
        \<and> c_owner (children s ! p) = tid \<and> tid < length (tasks s)
        \<and> t_pc (tasks s ! tid) = Await_exit p i a
      \<longrightarrow> step (Child_close p code) s =
            (if code = Some 0 \<or> code = Some 255 then on_resolve tid i a (mark_exited p s)
             else on_reject tid i a (mark_exited p s)))
   \<and> tasks (step (Child_close p code) (kill p s)) = tasks (step (Child_close p code) s)
   \<and> heap (step (Child_close p code) (kill p s)) = heap (step (Child_close p code) s)
   \<and> activePlayouts (step (Child_close p code) (kill p s))
       = activePlayouts (step (Child_close p code) s)
   \<and> linear_channels (step (Child_close p code) (kill p s))
       = linear_channels (step (Child_close p code) s)
   \<and> trace (step (Child_close p code) (kill p s)) = trace (step (Child_close p code) s)
   \<and> (\<not> hung s \<and> p < length (children s) \<and> \<not> exited (children s ! p)
        \<and> c_owner (children s ! p) = tid \<and> tid < length (tasks s)
        \<and> t_pc (tasks s ! tid) = Await_exit p i a
        \<and> a < length (heap s)
      \<longrightarrow> heap (step (Child_close p code) s) =
            (if code = Some 0 \<or> code = Some 255
             then (heap s)[a := (heap s ! a)\<lparr>currentItem := Suc i\<rparr>] else heap s)
          \<and> children (step (Child_close p code) s) = (children s)[p := (children s ! p)\<lparr>exited := True\<rparr>]
          \<and> linear_channels (step (Child_close p code) s) = linear_channels s
          \<and> trace (step (Child_close p code) s) = trace s)
   \<and> (\<not> hung s \<and> p < length (children s) \<and> \<not> exited (children s ! p)
        \<and> c_owner (children s ! p) = tid \<and> tid < length (tasks s)
        \<and> t_pc (tasks s ! tid) = Await_exit p i a
        \<and> a < length (heap s)
        \<and> map_of (activePlayouts s) (t_channelId (tasks s ! tid)) = Some a
        \<and> playlist (heap s ! a) \<noteq> []
      \<longrightarrow> t_pc (tasks (step (Child_close p code) s) ! tid) =
            (if Suc i < length (playlist (heap s ! a))
             then Await_index_write (Suc i) a (playlist (heap s ! a) ! Suc i)
             else if \<not> t_loop (tasks s ! tid) then Await_final_write
             else if code = Some 0 \<or> code = Some 255 then Await_refresh a
             else Await_index_write 0 a (playlist (heap s ! a) ! 0))
          \<and> activePlayouts (step (Child_close p code) s) =
            (if Suc i < length (playlist (heap s ! a)) \<or> t_loop (tasks s ! tid)
             then activePlayouts s
             else AList.delete (t_channelId (tasks s ! tid)) (activePlayouts s)))"
proof -
  have "playItem_resolves code \<longleftrightarrow> code = Some 0 \<or> code = Some 255"
    by (simp add: playItem_resolves_def)
  moreover have "step (Child_close p (Some 255)) s = step (Child_close p (Some 0)) s"
    by (simp add: playItem_resolves_def child_close_def Let_def split: pc.split)
  moreover have "\<not> hung s \<and> p < length (children s) \<and> \<not> exited (children s ! p)
        \<and> c_owner (children s ! p) = tid \<and> tid < length (tasks s)
        \<and> t_pc (tasks s ! tid) = Await_exit p i a
      \<longrightarrow> step (Child_close p code) s =
            (if code = Some 0 \<or> code = Some 255 then on_resolve tid i a (mark_exited p s)
             else on_reject tid i a (mark_exited p s))"
    by (simp add: playItem_resolves_def child_close_def Let_def split: pc.split)
  moreover have "tasks (step (Child_close p code) (kill p s)) = tasks (step (Child_close p code) s)
   \<and> heap (step (Child_close p code) (kill p s)) = heap (step (Child_close p code) s)
   \<and> activePlayouts (step (Child_close p code) (kill p s))
       = activePlayouts (step (Child_close p code) s)
   \<and> linear_channels (step (Child_close p code) (kill p s))
       = linear_channels (step (Child_close p code) s)
   \<and> trace (step (Child_close p code) (kill p s)) = trace (step (Child_close p code) s)"
    by (simp add: child_close_def kill_def mark_exited_def Let_def children_update_commutes
        split: pc.split)
  moreover have "\<not> hung s \<and> p < length (children s) \<and> \<not> exited (children s ! p)
        \<and> c_owner (children s ! p) = tid \<and> tid < length (tasks s)
        \<and> t_pc (tasks s ! tid) = Await_exit p i a
        \<and> a < length (heap s)
      \<longrightarrow> heap (step (Child_close p code) s) =
            (if code = Some 0 \<or> code = Some 255
             then (heap s)[a := (heap s ! a)\<lparr>currentItem := Suc i\<rparr>] else heap s)
          \<and> children (step (Child_close p code) s) = (children s)[p := (children s ! p)\<lparr>exited := True\<rparr>]
          \<and> linear_channels (step (Child_close p code) s) = linear_channels s
          \<and> trace (step (Child_close p code) s) = trace s"
    by (simp add: child_close_def mark_exited_def playItem_resolves_def on_resolve_def on_reject_def
        loop_head_def cleanup_def set_pc_def Let_def split: option.split)
  moreover have "\<not> hung s \<and> p < length (children s) \<and> \<not> exited (children s ! p)
        \<and> c_owner (children s ! p) = tid \<and> tid < length (tasks s)
        \<and> t_pc (tasks s ! tid) = Await_exit p i a
        \<and> a < length (heap s)
        \<and> map_of (activePlayouts s) (t_channelId (tasks s ! tid)) = Some a
        \<and> playlist (heap s ! a) \<noteq> []
      \<longrightarrow> t_pc (tasks (step (Child_close p code) s) ! tid) =
            (if Suc i < length (playlist (heap s ! a))
             then Await_index_write (Suc i) a (playlist (heap s ! a) ! Suc i)
             else if \<not> t_loop (tasks s ! tid) then Await_final_write
             else if code = Some 0 \<or> code = Some 255 then Await_refresh a
             else Await_index_write 0 a (playlist (heap s ! a) ! 0))
          \<and> activePlayouts (step (Child_close p code) s) =
            (if Suc i < length (playlist (heap s ! a)) \<or> t_loop (tasks s ! tid)
             then activePlayouts s
             else AList.delete (t_channelId (tasks s ! tid)) (activePlayouts s))"
    by (simp add: child_close_def mark_exited_def playItem_resolves_def on_resolve_def on_reject_def
        loop_head_def cleanup_def set_pc_def Let_def split: option.split)
  ultimately show ?thesis by blast
qed

theorem playItem_resolves_iff_0_or_255_witness:
  "(\<not> hung demo_playing \<and> 0 < length (children demo_playing) \<and> \<not> exited (children demo_playing ! 0)
        \<and> c_owner (children demo_playing ! 0) = 0 \<and> 0 < length (tasks demo_playing)
        \<and> t_pc (tasks demo_playing ! 0) = Await_exit 0 0 0)
   \<and> 0 < length (heap demo_playing)
   \<and> map_of (activePlayouts demo_playing) (t_channelId (tasks demo_playing ! 0)) = Some 0
   \<and> playlist (heap demo_playing ! 0) \<noteq> []
   \<and> currentItem (heap demo_playing ! 0) = 0
   \<and> step (Child_close 0 (Some 255)) demo_playing = on_resolve 0 0 0 (mark_exited 0 demo_playing)
   \<and> step (Child_close 0 (Some 1)) demo_playing = on_reject 0 0 0 (mark_exited 0 demo_playing)
   \<and> step (Child_close 0 None) demo_playing = on_reject 0 0 0 (mark_exited 0 demo_playing)
   \<and> heap (step (Child_close 0 (Some 255)) demo_playing)
       = (heap demo_playing)[0 := (heap demo_playing ! 0)\<lparr>currentItem := 1\<rparr>]
   \<and> heap (step (Child_close 0 (Some 1)) demo_playing) = heap demo_playing
   \<and> heap (step (Child_close 0 None) demo_playing) = heap demo_playing
   \<and> t_pc (tasks (step (Child_close 0 (Some 255)) demo_playing) ! 0)
       = Await_index_write 1 0 (mk_item ''v2'' 1)
   \<and> t_pc (tasks (step (Child_close 0 (Some 1)) demo_playing) ! 0)
       = Await_index_write 1 0 (mk_item ''v2'' 1)
   \<and> activePlayouts (step (Child_close 0 (Some 1)) demo_playing) = activePlayouts demo_playing"
proof -
  have h: "\<not> hung demo_playing \<and> 0 < length (children demo_playing) \<and> \<not> exited (children demo_playing ! 0)
        \<and> c_owner (children demo_playing ! 0) = 0 \<and> 0 < length (tasks demo_playing)
        \<and> t_pc (tasks demo_playing ! 0) = Await_exit 0 0 0"
    by code_simp
  have g: "0 < length (heap demo_playing)
     \<and> map_of (activePlayouts demo_playing) (t_channelId (tasks demo_playing ! 0)) = Some 0
     \<and> playlist (heap demo_playing ! 0) \<noteq> []"
    by code_simp
  have z: "currentItem (heap demo_playing ! 0) = 0"
    by code_simp
  have pl: "Suc 0 < length (playlist (heap demo_playing ! 0))
     \<and> playlist (heap demo_playing ! 0) ! Suc 0 = mk_item ''v2'' 1"
    by code_simp
  note r255 = playItem_resolves_iff_0_or_255 [of "Some 255" 0 demo_playing 0 0 0]
  note r1 = playItem_resolves_iff_0_or_255 [of "Some 1" 0 demo_playing 0 0 0]
  note rN = playItem_resolves_iff_0_or_255 [of "None" 0 demo_playing 0 0 0]
  have a: "step (Child_close 0 (Some 255)) demo_playing = on_resolve 0 0 0 (mark_exited 0 demo_playing)"
    using h r255 [THEN conjunct2, THEN conjunct2, THEN conjunct1] by simp
  have b: "step (Child_close 0 (Some 1)) demo_playing = on_reject 0 0 0 (mark_exited 0 demo_playing)"
    using h r1 [THEN conjunct2, THEN conjunct2, THEN conjunct1] by simp
  have c: "step (Child_close 0 None) demo_playing = on_reject 0 0 0 (mark_exited 0 demo_playing)"
    using h rN [THEN conjunct2, THEN conjunct2, THEN conjunct1] by simp
  have d: "heap (step (Child_close 0 (Some 255)) demo_playing)
       = (heap demo_playing)[0 := (heap demo_playing ! 0)\<lparr>currentItem := 1\<rparr>]"
    using h g r255 [THEN conjunct2, THEN conjunct2, THEN conjunct2, THEN conjunct2, THEN conjunct2,
        THEN conjunct2, THEN conjunct2, THEN conjunct2, THEN conjunct1] by simp
  have e: "heap (step (Child_close 0 (Some 1)) demo_playing) = heap demo_playing"
    using h g r1 [THEN conjunct2, THEN conjunct2, THEN conjunct2, THEN conjunct2, THEN conjunct2,
        THEN conjunct2, THEN conjunct2, THEN conjunct2, THEN conjunct1] by simp
  have f: "heap (step (Child_close 0 None) demo_playing) = heap demo_playing"
    using h g rN [THEN conjunct2, THEN conjunct2, THEN conjunct2, THEN conjunct2, THEN conjunct2,
        THEN conjunct2, THEN conjunct2, THEN conjunct2, THEN conjunct1] by simp
  have i: "t_pc (tasks (step (Child_close 0 (Some 255)) demo_playing) ! 0)
       = Await_index_write 1 0 (mk_item ''v2'' 1)"
    using h g pl r255 [THEN conjunct2, THEN conjunct2, THEN conjunct2, THEN conjunct2, THEN conjunct2,
        THEN conjunct2, THEN conjunct2, THEN conjunct2, THEN conjunct2] by simp
  have j: "t_pc (tasks (step (Child_close 0 (Some 1)) demo_playing) ! 0)
       = Await_index_write 1 0 (mk_item ''v2'' 1)
     \<and> activePlayouts (step (Child_close 0 (Some 1)) demo_playing) = activePlayouts demo_playing"
    using h g pl r1 [THEN conjunct2, THEN conjunct2, THEN conjunct2, THEN conjunct2, THEN conjunct2,
        THEN conjunct2, THEN conjunct2, THEN conjunct2, THEN conjunct2] by simp
  show ?thesis using h g z a b c d e f i j by blast
qed

subsection \<open>A second start of a running channel\<close>

text \<open>
  Claim C1, amended. \<^verbatim>\<open>startPlayout\<close> never looks the channel up before it registers it.
  For a channel that is already in the registry and whose playlist query returns at least
  one item, a second \<^verbatim>\<open>playout:start\<close> leaves the keys of the registry (hence its size)
  unchanged, but it replaces the channel's entry by a fresh object, and once its first
  index write completes it spawns a further subprocess and stores that handle in the new
  entry; the subprocesses that existed before are left as they were.
\<close>

theorem second_start_restarts:
  assumes "\<not> hung s" and "map_of (activePlayouts s) c = Some a" and "a < length (heap s)"
    and "getPlaylist s c \<noteq> []"
  shows "map fst (activePlayouts (run [Playout_start c k lp, Query_ok (length (tasks s)), Query_ok (length (tasks s))] s))
           = map fst (activePlayouts s)
       \<and> map_of (activePlayouts (run [Playout_start c k lp, Query_ok (length (tasks s)), Query_ok (length (tasks s))] s)) c
           = Some (length (heap s))
       \<and> length (heap s) \<noteq> a
       \<and> heap (run [Playout_start c k lp, Query_ok (length (tasks s)), Query_ok (length (tasks s))] s)
           = heap s @ [\<lparr>process = Some (length (children s)), currentItem = 0,
                        playlist = getPlaylist s c, loop = lp\<rparr>]
       \<and> children (run [Playout_start c k lp, Query_ok (length (tasks s)), Query_ok (length (tasks s))] s)
           = children s @ [\<lparr>c_owner = length (tasks s), c_channel = c, c_item = getPlaylist s c ! 0,
                             c_url = rtmpUrl (srs_rtmp_url s) k, sigterm = False, exited = False\<rparr>]
       \<and> trace (run [Playout_start c k lp, Query_ok (length (tasks s)), Query_ok (length (tasks s))] s)
           = trace s @ [Wrote_index c 0, Spawned (length (children s)) c (getPlaylist s c ! 0)]"
  using assms map_of_Some_key[OF assms(2)]
  by (simp add: Let_def startPlayout_def query_ok_def on_playlist_def set_pc_def loop_head_def
      playItem_def write_index_def update_conv' update_keys)

theorem second_start_restarts_witness:
  "\<not> hung demo_playing \<and> map_of (activePlayouts demo_playing) ''C'' = Some 0
   \<and> 0 < length (heap demo_playing) \<and> getPlaylist demo_playing ''C'' \<noteq> []
   \<and> map_of (activePlayouts (run [Playout_start ''C'' ''key'' False, Query_ok 1, Query_ok 1] demo_playing)) ''C''
       = Some 1
   \<and> length (children (run [Playout_start ''C'' ''key'' False, Query_ok 1, Query_ok 1] demo_playing)) = 2"
proof -
  have h1: "\<not> hung demo_playing" by code_simp
  have h2: "map_of (activePlayouts demo_playing) ''C'' = Some 0" by code_simp
  have h3: "0 < length (heap demo_playing)" by code_simp
  have h4: "getPlaylist demo_playing ''C'' \<noteq> []" by code_simp
  have l: "length (tasks demo_playing) = 1" "length (heap demo_playing) = 1"
    "length (children demo_playing) = 1" by code_simp+
  note T = second_start_restarts [OF h1 h2 h3 h4, of "''key''" False, unfolded l]
  from T have a: "map_of (activePlayouts (run [Playout_start ''C'' ''key'' False, Query_ok 1, Query_ok 1] demo_playing)) ''C''
       = Some 1" by blast
  from T have "children (run [Playout_start ''C'' ''key'' False, Query_ok 1, Query_ok 1] demo_playing)
           = children demo_playing @ [\<lparr>c_owner = 1, c_channel = ''C'', c_item = getPlaylist demo_playing ''C'' ! 0,
                             c_url = rtmpUrl (srs_rtmp_url demo_playing) ''key'', sigterm = False, exited = False\<rparr>]"
    by blast
  then have b: "length (children (run [Playout_start ''C'' ''key'' False, Query_ok 1, Query_ok 1] demo_playing)) = 2"
    using l(3) by simp
  show ?thesis using h1 h2 h3 h4 a b by blast
qed

text \<open>
  Claim C1 as stated fails on the sample run: channel \<open>C\<close> is running with registry entry
  object 0 and subprocess 0; after a second start message, its playlist query and its
  first index write, the entry is object 1 holding subprocess 1, and both subprocesses are
  alive, the first one not even signalled. Only the size of the registry is unchanged.
\<close>

theorem second_start_restarts_counterexample:
  "map_of (activePlayouts demo_playing) ''C'' = Some 0
   \<and> length (activePlayouts demo_playing) = 1
   \<and> process (heap demo_playing ! 0) = Some 0
   \<and> length (children demo_playing) = 1
   \<and> map_of (activePlayouts demo_restarted) ''C'' = Some 1
   \<and> length (activePlayouts demo_restarted) = 1
   \<and> process (heap demo_restarted ! 1) = Some 1
   \<and> length (children demo_restarted) = 2
   \<and> \<not> exited (children demo_restarted ! 0) \<and> \<not> sigterm (children demo_restarted ! 0)
   \<and> \<not> exited (children demo_restarted ! 1)"
  by code_simp

subsection \<open>A stop that overtakes the start\<close>

text \<open>
  Claim C2, amended. The registry has no state for a slot that is reserved but not yet
  running. A stop delivered for a channel without registry entry, after the start message
  and before the start handler has registered the channel, changes nothing at all; the
  handler then registers the channel and spawns the first subprocess, which receives no
  signal. A stop delivered after the registration and before the spawn only removes the
  registry entry: the first subprocess is spawned all the same, receives no signal, and
  the task waits for it to exit.
\<close>

theorem stop_before_spawn_is_lost:
  assumes "\<not> hung s" and "map_of (activePlayouts s) c = None" and "getPlaylist s c \<noteq> []"
  shows "step (Playout_stop c) (step (Playout_start c k lp) s) = step (Playout_start c k lp) s
       \<and> children (run [Playout_start c k lp, Playout_stop c, Query_ok (length (tasks s)), Query_ok (length (tasks s))] s)
           = children s @ [\<lparr>c_owner = length (tasks s), c_channel = c, c_item = getPlaylist s c ! 0,
                             c_url = rtmpUrl (srs_rtmp_url s) k, sigterm = False, exited = False\<rparr>]
       \<and> map_of (activePlayouts (run [Playout_start c k lp, Playout_stop c, Query_ok (length (tasks s)), Query_ok (length (tasks s))] s)) c
           = Some (length (heap s))
       \<and> children (run [Playout_start c k lp, Query_ok (length (tasks s)), Playout_stop c, Query_ok (length (tasks s))] s)
           = children s @ [\<lparr>c_owner = length (tasks s), c_channel = c, c_item = getPlaylist s c ! 0,
                             c_url = rtmpUrl (srs_rtmp_url s) k, sigterm = False, exited = False\<rparr>]
       \<and> map_of (activePlayouts (run [Playout_start c k lp, Query_ok (length (tasks s)), Playout_stop c, Query_ok (length (tasks s))] s)) c
           = None
       \<and> t_pc (tasks (run [Playout_start c k lp, Query_ok (length (tasks s)), Playout_stop c, Query_ok (length (tasks s))] s)
                ! length (tasks s))
           = Await_exit (length (children s)) 0 (length (heap s))"
proof -
  have d: "AList.delete c (activePlayouts s) = activePlayouts s"
    using map_of_None_key[OF assms(2)] by simp
  have 1: "step (Playout_stop c) (step (Playout_start c k lp) s) = step (Playout_start c k lp) s"
    using assms(1,2) d by (simp add: startPlayout_def stopPlayout_def kill_current_def)
  have 2: "run [Playout_start c k lp, Playout_stop c, Query_ok (length (tasks s)), Query_ok (length (tasks s))] s
         = run [Query_ok (length (tasks s)), Query_ok (length (tasks s))] (step (Playout_start c k lp) s)"
    using 1 by simp
  have 3: "children (run [Query_ok (length (tasks s)), Query_ok (length (tasks s))] (step (Playout_start c k lp) s))
           = children s @ [\<lparr>c_owner = length (tasks s), c_channel = c, c_item = getPlaylist s c ! 0,
                             c_url = rtmpUrl (srs_rtmp_url s) k, sigterm = False, exited = False\<rparr>]"
    using assms
    by (simp add: Let_def startPlayout_def query_ok_def on_playlist_def set_pc_def loop_head_def
      playItem_def write_index_def update_conv')
  have 4: "map_of (activePlayouts (run [Query_ok (length (tasks s)), Query_ok (length (tasks s))] (step (Playout_start c k lp) s))) c
           = Some (length (heap s))"
    using assms
    by (simp add: Let_def startPlayout_def query_ok_def on_playlist_def set_pc_def loop_head_def
      playItem_def write_index_def update_conv')
  have 5: "children (run [Playout_start c k lp, Query_ok (length (tasks s)), Playout_stop c, Query_ok (length (tasks s))] s)
           = children s @ [\<lparr>c_owner = length (tasks s), c_channel = c, c_item = getPlaylist s c ! 0,
                             c_url = rtmpUrl (srs_rtmp_url s) k, sigterm = False, exited = False\<rparr>]"
    using assms
    by (simp add: Let_def startPlayout_def query_ok_def on_playlist_def set_pc_def loop_head_def
      playItem_def write_index_def update_conv' stopPlayout_def kill_current_def delete_conv')
  have 6: "map_of (activePlayouts (run [Playout_start c k lp, Query_ok (length (tasks s)), Playout_stop c, Query_ok (length (tasks s))] s)) c
           = None"
    using assms
    by (simp add: Let_def startPlayout_def query_ok_def on_playlist_def set_pc_def loop_head_def
      playItem_def write_index_def update_conv' stopPlayout_def kill_current_def delete_conv')
  have 7: "t_pc (tasks (run [Playout_start c k lp, Query_ok (length (tasks s)), Playout_stop c, Query_ok (length (tasks s))] s)
                ! length (tasks s))
           = Await_exit (length (children s)) 0 (length (heap s))"
    using assms
    by (simp add: Let_def startPlayout_def query_ok_def on_playlist_def set_pc_def loop_head_def
      playItem_def write_index_def update_conv' stopPlayout_def kill_current_def delete_conv')
  show ?thesis unfolding 2 using 1 3 4 5 6 7 by blast
qed

theorem stop_before_spawn_is_lost_witness:
  "\<not> hung demo \<and> map_of (activePlayouts demo) ''C'' = None \<and> getPlaylist demo ''C'' \<noteq> []
   \<and> step (Playout_stop ''C'') (step (Playout_start ''C'' ''key'' False) demo)
       = step (Playout_start ''C'' ''key'' False) demo
   \<and> map_of (activePlayouts (run [Playout_start ''C'' ''key'' False, Playout_stop ''C'', Query_ok 0, Query_ok 0] demo)) ''C''
       = Some 0"
proof -
  have h1: "\<not> hung demo" by code_simp
  have h2: "map_of (activePlayouts demo) ''C'' = None" by code_simp
  have h3: "getPlaylist demo ''C'' \<noteq> []" by code_simp
  have l: "length (tasks demo) = 0" "length (heap demo) = 0" by code_simp+
  note T = stop_before_spawn_is_lost [OF h1 h2 h3, of "''key''" False, unfolded l]
  from T have a: "step (Playout_stop ''C'') (step (Playout_start ''C'' ''key'' False) demo)
       = step (Playout_start ''C'' ''key'' False) demo" by blast
  from T have b: "map_of (activePlayouts (run [Playout_start ''C'' ''key'' False, Playout_stop ''C'', Query_ok 0, Query_ok 0] demo)) ''C''
       = Some 0" by blast
  show ?thesis using h1 h2 h3 a b by blast
qed

text \<open>
  Claim C2 as stated fails on the sample store: with the stop delivered between the start
  message and the result of the playlist query, the service ends in exactly the state it
  reaches without the stop, with subprocess 0 running, never signalled, and registered.
\<close>

theorem stop_before_spawn_is_lost_counterexample:
  "run [Playout_start ''C'' ''key'' False, Playout_stop ''C'', Query_ok 0, Query_ok 0] demo = demo_playing
   \<and> length (children demo_playing) = 1
   \<and> \<not> sigterm (children demo_playing ! 0) \<and> \<not> exited (children demo_playing ! 0)
   \<and> map_of (activePlayouts demo_playing) ''C'' = Some 0
   \<and> t_pc (tasks demo_playing ! 0) = Await_exit 0 0 0"
  by code_simp

subsection \<open>Failed store writes\<close>

text \<open>A task whose promise has rejected is never resumed: no event changes it.\<close>

lemma set_pc_tasks:
  "length (tasks (set_pc t k s)) = length (tasks s)"
  "tid \<noteq> t \<Longrightarrow> tasks (set_pc t k s) ! tid = tasks s ! tid"
  by (simp_all add: set_pc_def)

lemma cleanup_tasks:
  "length (tasks (cleanup t s)) = length (tasks s)"
  "tid \<noteq> t \<Longrightarrow> tasks (cleanup t s) ! tid = tasks s ! tid"
  by (simp_all add: cleanup_def set_pc_def)

lemma loop_head_tasks:
  "length (tasks (loop_head t r i s)) = length (tasks s)"
  "tid \<noteq> t \<Longrightarrow> tasks (loop_head t r i s) ! tid = tasks s ! tid"
  by (simp_all add: loop_head_def Let_def cleanup_tasks set_pc_tasks split: option.split)

lemma on_resolve_tasks:
  "length (tasks (on_resolve t i a s)) = length (tasks s)"
  "tid \<noteq> t \<Longrightarrow> tasks (on_resolve t i a s) ! tid = tasks s ! tid"
  by (simp_all add: on_resolve_def Let_def loop_head_tasks set_pc_tasks)

lemma on_reject_tasks:
  "length (tasks (on_reject t i a s)) = length (tasks s)"
  "tid \<noteq> t \<Longrightarrow> tasks (on_reject t i a s) ! tid = tasks s ! tid"
  by (simp_all add: on_reject_def Let_def loop_head_tasks)

lemma on_playlist_tasks:
  "length (tasks (on_playlist t s)) = length (tasks s)"
  "tid \<noteq> t \<Longrightarrow> tasks (on_playlist t s) ! tid = tasks s ! tid"
  by (simp_all add: on_playlist_def Let_def loop_head_tasks set_pc_tasks)

lemma playItem_tasks: "tasks (playItem t item s) = tasks s"
  by (simp add: playItem_def Let_def split: option.split)

lemma kill_tasks: "tasks (kill p s) = tasks s"
  by (simp add: kill_def)

lemma kill_current_tasks: "tasks (kill_current c s) = tasks s"
  by (simp add: kill_current_def kill_tasks split: option.split)

lemma query_ok_rejected:
  assumes "tid < length (tasks s)" and "t_pc (tasks s ! tid) = Rejected"
  shows "tid < length (tasks (query_ok t s)) \<and> t_pc (tasks (query_ok t s) ! tid) = Rejected"
proof (cases "t = tid")
  case True
  then show ?thesis using assms by (simp add: query_ok_def)
next
  case False
  then have f: "tid \<noteq> t" by simp
  show ?thesis using assms
    by (simp add: query_ok_def Let_def on_playlist_tasks(2)[OF f] on_playlist_tasks(1)
        set_pc_tasks(2)[OF f] set_pc_tasks(1) loop_head_tasks(2)[OF f] loop_head_tasks(1)
        playItem_tasks write_stopped_def write_index_def split: pc.split)
qed

lemma query_failed_rejected:
  assumes "tid < length (tasks s)" and "t_pc (tasks s ! tid) = Rejected"
  shows "tid < length (tasks (query_failed t s)) \<and> t_pc (tasks (query_failed t s) ! tid) = Rejected"
proof (cases "t = tid")
  case True
  then show ?thesis using assms by (simp add: query_failed_def)
next
  case False
  then have f: "tid \<noteq> t" by simp
  show ?thesis using assms
    by (simp add: query_failed_def set_pc_tasks(2)[OF f] set_pc_tasks(1)
        on_reject_tasks(2)[OF f] on_reject_tasks(1) split: pc.split)
qed

lemma child_close_rejected:
  assumes "tid < length (tasks s)" and "t_pc (tasks s ! tid) = Rejected"
  shows "tid < length (tasks (child_close p code s)) \<and> t_pc (tasks (child_close p code s) ! tid) = Rejected"
proof (cases "c_owner (children s ! p) = tid")
  case True
  then show ?thesis using assms by (simp add: child_close_def Let_def mark_exited_def)
next
  case False
  then have f: "tid \<noteq> c_owner (children s ! p)" by simp
  have m: "tasks (mark_exited p s) = tasks s" by (simp add: mark_exited_def)
  show ?thesis using assms
    by (simp add: child_close_def Let_def on_resolve_tasks(2)[OF f] on_resolve_tasks(1)
        on_reject_tasks(2)[OF f] on_reject_tasks(1) m split: pc.split)
qed

lemma child_error_rejected:
  assumes "tid < length (tasks s)" and "t_pc (tasks s ! tid) = Rejected"
  shows "tid < length (tasks (child_error p s)) \<and> t_pc (tasks (child_error p s) ! tid) = Rejected"
proof (cases "c_owner (children s ! p) = tid")
  case True
  then show ?thesis using assms by (simp add: child_error_def Let_def)
next
  case False
  then have f: "tid \<noteq> c_owner (children s ! p)" by simp
  show ?thesis using assms
    by (simp add: child_error_def Let_def on_reject_tasks(2)[OF f] on_reject_tasks(1) split: pc.split)
qed

lemma step_rejected:
  assumes "tid < length (tasks s)" and "t_pc (tasks s ! tid) = Rejected"
  shows "tid < length (tasks (step e s)) \<and> t_pc (tasks (step e s) ! tid) = Rejected"
proof (cases e)
  case (Playout_start c k lp)
  then show ?thesis using assms by (simp add: startPlayout_def nth_append)
next
  case (Playout_stop c)
  then show ?thesis using assms by (simp add: stopPlayout_def Let_def kill_current_tasks)
next
  case (Playout_skip c)
  then show ?thesis using assms by (simp add: skipItem_def kill_current_tasks)
next
  case (Query_ok t)
  then show ?thesis using assms query_ok_rejected[OF assms] by simp
next
  case (Query_failed t)
  then show ?thesis using assms query_failed_rejected[OF assms] by simp
next
  case (Child_close p code)
  then show ?thesis using assms child_close_rejected[OF assms] by simp
next
  case (Child_error p)
  then show ?thesis using assms child_error_rejected[OF assms] by simp
next
  case (Playlist_edit c pl)
  then show ?thesis using assms by simp
qed

lemma run_rejected:
  "tid < length (tasks s) \<Longrightarrow> t_pc (tasks s ! tid) = Rejected \<Longrightarrow>
   tid < length (tasks (run es s)) \<and> t_pc (tasks (run es s) ! tid) = Rejected"
proof (induction es arbitrary: s)
  case Nil
  then show ?case by simp
next
  case (Cons e es)
  from step_rejected[OF Cons.prems] Cons.IH show ?case by simp
qed

text \<open>
  Claim C7, amended. The service has no retry. When the index write of the loop, the
  final status write or the status write of the empty-playlist branch is rejected, the
  exception leaves \<^verbatim>\<open>startPlayout\<close>: the control task ends rejected and stays so whatever
  events follow, and the failure itself changes nothing else (registry, store, subprocesses
  and trace are as before; after a failed index write the registry entry therefore stays
  in place and no stopped status is written).
\<close>

theorem failed_write_aborts_task:
  assumes "\<not> hung s" and "tid < length (tasks s)"
    and "t_pc (tasks s ! tid) = Await_index_write i a item
         \<or> t_pc (tasks s ! tid) = Await_final_write
         \<or> t_pc (tasks s ! tid) = Await_empty_stop"
  shows "step (Query_failed tid) s = set_pc tid Rejected s
       \<and> activePlayouts (step (Query_failed tid) s) = activePlayouts s
       \<and> linear_channels (step (Query_failed tid) s) = linear_channels s
       \<and> children (step (Query_failed tid) s) = children s
       \<and> trace (step (Query_failed tid) s) = trace s
       \<and> t_pc (tasks (run es (step (Query_failed tid) s)) ! tid) = Rejected"
proof -
  have 1: "step (Query_failed tid) s = set_pc tid Rejected s"
    using assms by (auto simp: query_failed_def)
  have 2: "tid < length (tasks (set_pc tid Rejected s))" "t_pc (tasks (set_pc tid Rejected s) ! tid) = Rejected"
    using assms(2) by (simp_all add: set_pc_def)
  show ?thesis
    unfolding 1 using run_rejected[OF 2, of es] by (simp add: set_pc_def)
qed

theorem failed_write_aborts_task_witness:
  "\<not> hung (run [Playout_start ''C'' ''key'' False, Query_ok 0] demo)
   \<and> t_pc (tasks (run [Playout_start ''C'' ''key'' False, Query_ok 0] demo) ! 0)
       = Await_index_write 0 0 (mk_item ''v1'' 0)
   \<and> activePlayouts (step (Query_failed 0) (run [Playout_start ''C'' ''key'' False, Query_ok 0] demo))
       = [(''C'', 0)]
   \<and> t_pc (tasks (run [Query_ok 0, Child_close 0 (Some 0)]
         (step (Query_failed 0) (run [Playout_start ''C'' ''key'' False, Query_ok 0] demo))) ! 0) = Rejected"
proof -
  define s where "s = run [Playout_start ''C'' ''key'' False, Query_ok 0] demo"
  have h1: "\<not> hung s" unfolding s_def by code_simp
  have h2: "0 < length (tasks s)" unfolding s_def by code_simp
  have h3: "t_pc (tasks s ! 0) = Await_index_write 0 0 (mk_item ''v1'' 0)" unfolding s_def by code_simp
  have h4: "activePlayouts s = [(''C'', 0)]" unfolding s_def by code_simp
  note T = failed_write_aborts_task [OF h1 h2 disjI1, OF h3, of "[Query_ok 0, Child_close 0 (Some 0)]"]
  from T have a: "activePlayouts (step (Query_failed 0) s) = [(''C'', 0)]"
    unfolding h4 by blast
  from T have b: "t_pc (tasks (run [Query_ok 0, Child_close 0 (Some 0)] (step (Query_failed 0) s)) ! 0) = Rejected"
    by blast
  show ?thesis unfolding s_def [symmetric] using h1 h3 a b by blast
qed

text \<open>
  Claim C7 as stated fails on the sample store: after the first index write is rejected,
  the task is rejected, nothing has been written or spawned, the channel is still
  registered and its row still says running, and further completions delivered to the task
  change nothing.
\<close>

theorem failed_write_aborts_task_counterexample:
  "t_pc (tasks demo_write_failed ! 0) = Rejected
   \<and> activePlayouts demo_write_failed = [(''C'', 0)]
   \<and> trace demo_write_failed = []
   \<and> children demo_write_failed = []
   \<and> map_of (linear_channels demo_write_failed) ''C'' = Some \<lparr>status = Running, current_item_index = 0\<rparr>
   \<and> run [Query_ok 0, Query_failed 0, Query_ok 0] demo_write_failed = demo_write_failed"
  by code_simp

subsection \<open>Abnormal exit on the last item of a looping playlist\<close>

text \<open>
  Claim C5, evaluated at its failing input. Channel \<open>C\<close> loops over a one-item playlist
  and the stored playlist is edited to two items while the item plays. After a clean exit
  (code 0) the loop refreshes its snapshot to the two items and restarts at index 0.
  After an abnormal exit (code 1) the loop restarts at index 0 on the old one-item
  snapshot: the \<^verbatim>\<open>catch\<close> block resets the index but does not refresh the snapshot.
\<close>

theorem abnormal_exit_skips_refresh:
  "playlist (heap (run (last_item_playing @ [Child_close 0 (Some 0), Query_ok 0]) demo_loop) ! 0) = demo_items
   \<and> t_pc (tasks (run (last_item_playing @ [Child_close 0 (Some 0), Query_ok 0]) demo_loop) ! 0)
       = Await_index_write 0 0 (mk_item ''v1'' 0)
   \<and> playlist (heap (run (last_item_playing @ [Child_close 0 (Some 1)]) demo_loop) ! 0) = [mk_item ''v1'' 0]
   \<and> t_pc (tasks (run (last_item_playing @ [Child_close 0 (Some 1)]) demo_loop) ! 0)
       = Await_index_write 0 0 (mk_item ''v1'' 0)
   \<and> getPlaylist (run (last_item_playing @ [Child_close 0 (Some 1)]) demo_loop) ''C'' = demo_items"
  by code_simp

section \<open>Properties of the restream service\<close>

subsection \<open>Auxiliary facts\<close>








lemma enabled_destinations_rtasks [simp]:
  "enabled_destinations (st\<lparr>rtasks := x\<rparr>) sid = enabled_destinations st sid"
  by (simp add: enabled_destinations_def cong: if_cong option.case_cong)




subsection \<open>One row of the fan-out, and the rows that follow\<close>















subsection \<open>Fan-out on stream start\<close>




subsection \<open>Stream stop followed by the exit of the subprocess\<close>

text \<open>
  Claim C6, evaluated at its failing input. After the fan-out destination \<open>A\<close> is
  active. The stream stop (its message, its query for the active destinations, its
  update) sends SIGTERM to the subprocess of \<open>A\<close> and records \<open>A\<close> as stopped. When the
  subprocess then closes with code 255 (or with a null code, as after a signal), the
  close handler records \<open>A\<close> as failed: the status moves from stopped to failed. \<open>A\<close> also
  ends failed when the close arrives between the signal and the update of the stop.
\<close>

theorem stream_stop_then_close_ends_failed:
  "dest_status_of (rrun (fanout_run rdemo ''S'' ''key'') rdemo) ''A'' = Some D_active
   \<and> dest_status_of (rrun (fanout_run rdemo ''S'' ''key'' @ [Stream_stop ''S'', Store_ok 1, Store_ok 1])
                        rdemo) ''A'' = Some D_stopped
   \<and> rc_sigterm (rchildren (rrun (fanout_run rdemo ''S'' ''key'' @ [Stream_stop ''S'', Store_ok 1, Store_ok 1])
                                rdemo) ! 0)
   \<and> dest_status_of (rrun (fanout_run rdemo ''S'' ''key''
                             @ [Stream_stop ''S'', Store_ok 1, Store_ok 1, Restream_close 0 (Some 255)])
                        rdemo) ''A'' = Some D_failed
   \<and> dest_status_of (rrun (fanout_run rdemo ''S'' ''key''
                             @ [Stream_stop ''S'', Store_ok 1, Store_ok 1, Restream_close 0 None])
                        rdemo) ''A'' = Some D_failed
   \<and> dest_status_of (rrun (fanout_run rdemo ''S'' ''key''
                             @ [Stream_stop ''S'', Store_ok 1, Restream_close 0 (Some 255), Store_ok 1])
                        rdemo) ''A'' = Some D_failed"
  by code_simp

subsection \<open>Stop of a destination whose subprocess has exited\<close>








end
